theory Spec2Isabelle
  imports Complex_Main "HOL-Library.Word"
begin

unbundle bit_operations_syntax

section \<open>Numbers and vectors\<close>

text \<open>
  The renderer of \<^verbatim>\<open>tinyraytracer.cpp\<close> computes in C++ \<^verbatim>\<open>float\<close>. The embedding
  takes \<^typ>\<open>real\<close> for it: every arithmetic operation of the source is the exact
  operation on reals, so rounding and overflow are outside the model. Comparisons,
  branches, loops and the data flow are those of the source.

  The two functions that divide by a refractive index, \<^verbatim>\<open>fresnel\<close> and \<^verbatim>\<open>refract\<close>,
  are the exception: the index may be 0 (three of the four materials of \<^verbatim>\<open>main\<close> have
  it), the quotient is then an infinity or a NaN, and the branch taken depends on it.
  Their intermediate values and results are therefore values of the type \<open>fval\<close>
  (section ``Optics''), with the arithmetic and the comparisons of IEEE 754 on
  infinities and NaN.
\<close>

definition MAX_DISTANCE :: real where
  "MAX_DISTANCE = 9999"

definition EPSILON :: real where
  "EPSILON = 1 / 1000"

definition MAX_MARCHING_STEPS :: nat where
  "MAX_MARCHING_STEPS = 128"

text \<open>\<^verbatim>\<open>std::numeric_limits<float>::max()\<close>, the largest finite binary32 value.\<close>

definition FLT_MAX :: real where
  "FLT_MAX = (2 ^ 24 - 1) * 2 ^ 104"

text \<open>
  Modelled from the spec: \<^verbatim>\<open>geometry.h\<close> is not among the sources. Its vector type
  \<^verbatim>\<open>Vec3f\<close> is taken as three components with component access, addition,
  subtraction, negation, scaling by a number, dot product, length and normalization
  (section 1 of the specification lists exactly these). A default-constructed vector
  is taken to have all components zero; the variables \<^verbatim>\<open>point\<close> and \<^verbatim>\<open>N\<close> of
  \<^verbatim>\<open>cast_ray\<close> start with that value, and are read only after \<^verbatim>\<open>ray_marching\<close> has
  returned \<^verbatim>\<open>true\<close>.
\<close>

datatype Vec3f = Vec3f (vx: real) (vy: real) (vz: real)

datatype Vec4f = Vec4f real real real real

instantiation Vec3f :: "{zero, plus, minus, uminus}"
begin

definition zero_Vec3f :: Vec3f where
  "zero_Vec3f = Vec3f 0 0 0"

definition plus_Vec3f :: "Vec3f \<Rightarrow> Vec3f \<Rightarrow> Vec3f" where
  "plus_Vec3f a b = Vec3f (vx a + vx b) (vy a + vy b) (vz a + vz b)"

definition minus_Vec3f :: "Vec3f \<Rightarrow> Vec3f \<Rightarrow> Vec3f" where
  "minus_Vec3f a b = Vec3f (vx a - vx b) (vy a - vy b) (vz a - vz b)"

definition uminus_Vec3f :: "Vec3f \<Rightarrow> Vec3f" where
  "uminus_Vec3f a = Vec3f (- vx a) (- vy a) (- vz a)"

instance ..

end

text \<open>\<^verbatim>\<open>v * s\<close> for a vector and a number, and \<^verbatim>\<open>a * b\<close> for two vectors.\<close>

definition scale :: "Vec3f \<Rightarrow> real \<Rightarrow> Vec3f" where
  "scale v s = Vec3f (vx v * s) (vy v * s) (vz v * s)"

definition dot :: "Vec3f \<Rightarrow> Vec3f \<Rightarrow> real" where
  "dot a b = vx a * vx b + vy a * vy b + vz a * vz b"

definition norm_sqr :: "Vec3f \<Rightarrow> real" where
  "norm_sqr v = vx v * vx v + vy v * vy v + vz v * vz v"

definition vnorm :: "Vec3f \<Rightarrow> real" where
  "vnorm v = sqrt (norm_sqr v)"

definition normalize :: "Vec3f \<Rightarrow> Vec3f" where
  "normalize v = scale v (1 / vnorm v)"

text \<open>\<^verbatim>\<open>v[i]\<close> on a three-vector and on the four albedo weights.\<close>

fun vidx :: "Vec3f \<Rightarrow> nat \<Rightarrow> real" where
  "vidx (Vec3f a b c) i = (if i = 0 then a else if i = 1 then b else c)"

fun vidx4 :: "Vec4f \<Rightarrow> nat \<Rightarrow> real" where
  "vidx4 (Vec4f a b c d) i = (if i = 0 then a else if i = 1 then b else if i = 2 then c else d)"

section \<open>Scene data\<close>

record Light =
  position :: Vec3f
  intensity :: real

record Material =
  refractive_index :: real
  albedo :: Vec4f
  diffuse_color :: Vec3f
  specular_exponent :: real

text \<open>The default constructor \<^verbatim>\<open>Material()\<close>.\<close>

definition Material_default :: Material where
  "Material_default =
     \<lparr>refractive_index = 1, albedo = Vec4f 1 0 0 0, diffuse_color = 0, specular_exponent = 0\<rparr>"

text \<open>
  \<^verbatim>\<open>sdf_model\<close> is an abstract class with one concrete subclass, \<^verbatim>\<open>Sphere\<close>;
  the datatype has that one constructor, holding the base class's material and the
  sphere's centre and radius.
\<close>

datatype sdf_model = Sphere (get_material: Material) (center: Vec3f) (radius: real)

fun sdf :: "sdf_model \<Rightarrow> Vec3f \<Rightarrow> real" where
  "sdf (Sphere m c r) point = vnorm (point - c) - r"

text \<open>
  \<^verbatim>\<open>try_get_normal\<close> returns \<^verbatim>\<open>false\<close> and leaves \<^verbatim>\<open>n\<close> alone, or writes \<^verbatim>\<open>n\<close>
  and returns \<^verbatim>\<open>true\<close>: \<open>None\<close> and \<open>Some n\<close>.
\<close>

fun try_get_normal :: "sdf_model \<Rightarrow> Vec3f \<Rightarrow> Vec3f option" where
  "try_get_normal (Sphere m c r) point =
     (let point_to_center = point - c in
      if \<bar>vnorm point_to_center\<bar> < EPSILON then None
      else Some (normalize point_to_center))"

text \<open>
  \<^verbatim>\<open>Sphere::ray_intersect\<close>: the result and the output parameter \<^verbatim>\<open>t0\<close>, which keeps
  the caller's value on the two early returns.
\<close>

definition ray_intersect :: "sdf_model \<Rightarrow> Vec3f \<Rightarrow> Vec3f \<Rightarrow> real \<Rightarrow> bool \<times> real" where
  "ray_intersect s orig dir t0 =
     (let L = center s - orig;
          tca = dot L dir in
      if tca < 0 then (False, t0)
      else
        (let d2 = dot L L - tca * tca in
         if d2 > radius s * radius s then (False, t0)
         else
           (let thc = sqrt (radius s * radius s - d2);
                t0 = tca - thc;
                t1 = tca + thc;
                t0 = (if t0 < 0 then t1 else t0) in
            if t0 < 0 then (False, t0) else (True, t0))))"

section \<open>Scene field\<close>

text \<open>
  The loop of \<^verbatim>\<open>scene_sdf\<close> over the models, with its two variables \<^verbatim>\<open>min_dist\<close>
  and \<^verbatim>\<open>hit_model\<close> (a pointer, null or to a model of the list: an option).
\<close>

fun scene_sdf_loop ::
  "Vec3f \<Rightarrow> sdf_model list \<Rightarrow> real \<times> sdf_model option \<Rightarrow> real \<times> sdf_model option" where
  "scene_sdf_loop point [] acc = acc"
| "scene_sdf_loop point (model # models) (min_dist, hit_model) =
     (let dist = sdf model point in
      if dist < 0 then scene_sdf_loop point models (min_dist, hit_model)
      else if min_dist > dist then scene_sdf_loop point models (dist, Some model)
      else scene_sdf_loop point models (min_dist, hit_model))"

definition scene_sdf :: "Vec3f \<Rightarrow> sdf_model list \<Rightarrow> real \<times> sdf_model option" where
  "scene_sdf point models = scene_sdf_loop point models (MAX_DISTANCE, None)"

section \<open>Ray marcher\<close>

text \<open>
  How the \<^verbatim>\<open>for\<close> loop of \<^verbatim>\<open>ray_marching\<close> is left: by its \<^verbatim>\<open>return true\<close>
  with the hit point and the model that was hit, by its \<^verbatim>\<open>break\<close> when
  \<^verbatim>\<open>scene_sdf\<close> found no model, or by running out of steps.
\<close>

datatype loop_exit = SurfaceHit Vec3f sdf_model | NoModel | BudgetExhausted

text \<open>
  The first argument counts the steps that remain; the last is \<^verbatim>\<open>depth\<close>. The
  source's \<^verbatim>\<open>dist\<close> is \<open>distance\<close> here.
\<close>

fun marching_loop :: "nat \<Rightarrow> Vec3f \<Rightarrow> Vec3f \<Rightarrow> sdf_model list \<Rightarrow> real \<Rightarrow> loop_exit" where
  "marching_loop 0 orig dir models depth = BudgetExhausted"
| "marching_loop (Suc n) orig dir models depth =
     (case scene_sdf (orig + scale dir depth) models of
        (distance, None) \<Rightarrow> NoModel
      | (distance, Some hit_model) \<Rightarrow>
          (let depth' = depth + distance in
           if distance < EPSILON then SurfaceHit (orig + scale dir depth') hit_model
           else marching_loop n orig dir models depth'))"

text \<open>
  \<^verbatim>\<open>int(v)\<close> on a floating-point value discards the fractional part (rounds toward
  zero). The values converted below lie between \<open>-15\<close> and \<open>1005\<close>, far inside the
  range of \<^verbatim>\<open>int\<close>.
\<close>

definition to_int :: "real \<Rightarrow> int" where
  "to_int v = (if v < 0 then \<lceil>v\<rceil> else \<lfloor>v\<rfloor>)"

text \<open>
  The part of \<^verbatim>\<open>ray_marching\<close> after the loop. The three output parameters
  \<^verbatim>\<open>hit\<close>, \<^verbatim>\<open>N\<close> and \<^verbatim>\<open>material\<close> are passed in with the values the caller's
  variables hold and returned with the values they hold afterwards, next to
  \<^verbatim>\<open>checkerboard_dist\<close>.
\<close>

definition checkerboard ::
  "Vec3f \<Rightarrow> Vec3f \<Rightarrow> Vec3f \<times> Vec3f \<times> Material \<Rightarrow> real \<times> Vec3f \<times> Vec3f \<times> Material" where
  "checkerboard orig dir out =
     (case out of (hit, N, material) \<Rightarrow>
        if \<bar>vy dir\<bar> > EPSILON then
          (let d = - (vy orig + 4) / vy dir;
               pt = orig + scale dir d in
           if d > 0 \<and> \<bar>vx pt\<bar> < 10 \<and> vz pt < - 10 \<and> vz pt > - 30 then
             (d, pt, Vec3f 0 1 0,
              material\<lparr>diffuse_color :=
                (if (to_int (0.5 * vx pt + 1000) + to_int (0.5 * vz pt)) AND 1 \<noteq> 0
                 then Vec3f 0.3 0.3 0.3 else Vec3f 0.3 0.2 0.1)\<rparr>)
           else (FLT_MAX, hit, N, material))
        else (FLT_MAX, hit, N, material))"

text \<open>
  \<^verbatim>\<open>ray_marching\<close>: the result and the three output parameters. A failing
  \<^verbatim>\<open>try_get_normal\<close> prints a message and leaves \<^verbatim>\<open>N\<close> as it was; the message is
  not modelled.
\<close>

definition ray_marching ::
  "Vec3f \<Rightarrow> Vec3f \<Rightarrow> sdf_model list \<Rightarrow> Vec3f \<times> Vec3f \<times> Material \<Rightarrow> bool \<times> Vec3f \<times> Vec3f \<times> Material" where
  "ray_marching orig dir models out =
     (case marching_loop MAX_MARCHING_STEPS orig dir models EPSILON of
        SurfaceHit hit hit_model \<Rightarrow>
          (True, hit,
           (case try_get_normal hit_model hit of None \<Rightarrow> fst (snd out) | Some n \<Rightarrow> n),
           get_material hit_model)
      | _ \<Rightarrow>
          (case checkerboard orig dir out of
             (checkerboard_dist, hit, N, material) \<Rightarrow>
               (min MAX_DISTANCE checkerboard_dist < 1000, hit, N, material)))"

text \<open>
  Whether \<^verbatim>\<open>ray_marching\<close> reaches the code after its loop: the loop ended by
  \<^verbatim>\<open>break\<close> or by the step budget, not by \<^verbatim>\<open>return true\<close>.
\<close>

definition loop_missed :: "Vec3f \<Rightarrow> Vec3f \<Rightarrow> sdf_model list \<Rightarrow> bool" where
  "loop_missed orig dir models =
     (case marching_loop MAX_MARCHING_STEPS orig dir models EPSILON of
        SurfaceHit hit hit_model \<Rightarrow> False
      | NoModel \<Rightarrow> True
      | BudgetExhausted \<Rightarrow> True)"

text \<open>
  The colour rule for the tiles as the specification words it: light gray if
  \<open>\<lfloor>0.5 * hit.x + 1000\<rfloor> + \<lfloor>0.5 * hit.z\<rfloor>\<close> is odd, else brown.
\<close>

definition spec_tile_color :: "real \<Rightarrow> real \<Rightarrow> Vec3f" where
  "spec_tile_color hx hz =
     (if odd (\<lfloor>0.5 * hx + 1000\<rfloor> + \<lfloor>0.5 * hz\<rfloor>) then Vec3f 0.3 0.3 0.3 else Vec3f 0.3 0.2 0.1)"

section \<open>Optics\<close>

text \<open>
  A \<^verbatim>\<open>float\<close> that may be special: a finite number, \<open>+\<infinity>\<close>, \<open>-\<infinity>\<close> or NaN. The
  operations are those of IEEE 754: exact on finite operands, a quotient by zero is an
  infinity with the sign of the dividend or NaN for \<open>0 / 0\<close>, \<open>\<infinity> * 0\<close> and
  \<open>\<infinity> - \<infinity>\<close> are NaN, NaN propagates, and every comparison with NaN is false. The
  zero of the model is the positive zero; the negative zero is not modelled. (The type
  class of \<open>/\<close> asks for an inverse as well; it is \<open>1 / a\<close>.)
\<close>

datatype fval = Fin real | PInf | NInf | NaN

instantiation fval :: "{uminus, plus, minus, times, inverse, ord}"
begin

fun uminus_fval :: "fval \<Rightarrow> fval" where
  "uminus_fval (Fin a) = Fin (- a)"
| "uminus_fval PInf = NInf"
| "uminus_fval NInf = PInf"
| "uminus_fval NaN = NaN"

fun plus_fval :: "fval \<Rightarrow> fval \<Rightarrow> fval" where
  "plus_fval (Fin a) (Fin b) = Fin (a + b)"
| "plus_fval NaN b = NaN"
| "plus_fval a NaN = NaN"
| "plus_fval PInf NInf = NaN"
| "plus_fval NInf PInf = NaN"
| "plus_fval PInf b = PInf"
| "plus_fval a PInf = PInf"
| "plus_fval NInf b = NInf"
| "plus_fval a NInf = NInf"

definition minus_fval :: "fval \<Rightarrow> fval \<Rightarrow> fval" where
  "minus_fval a b = a + (- b)"

fun times_fval :: "fval \<Rightarrow> fval \<Rightarrow> fval" where
  "times_fval (Fin a) (Fin b) = Fin (a * b)"
| "times_fval NaN b = NaN"
| "times_fval a NaN = NaN"
| "times_fval (Fin a) PInf = (if a > 0 then PInf else if a < 0 then NInf else NaN)"
| "times_fval (Fin a) NInf = (if a > 0 then NInf else if a < 0 then PInf else NaN)"
| "times_fval PInf (Fin b) = (if b > 0 then PInf else if b < 0 then NInf else NaN)"
| "times_fval NInf (Fin b) = (if b > 0 then NInf else if b < 0 then PInf else NaN)"
| "times_fval PInf PInf = PInf"
| "times_fval PInf NInf = NInf"
| "times_fval NInf PInf = NInf"
| "times_fval NInf NInf = PInf"

fun divide_fval :: "fval \<Rightarrow> fval \<Rightarrow> fval" where
  "divide_fval (Fin a) (Fin b) =
     (if b \<noteq> 0 then Fin (a / b)
      else if a > 0 then PInf else if a < 0 then NInf else NaN)"
| "divide_fval NaN b = NaN"
| "divide_fval a NaN = NaN"
| "divide_fval (Fin a) PInf = Fin 0"
| "divide_fval (Fin a) NInf = Fin 0"
| "divide_fval PInf (Fin b) = (if b \<ge> 0 then PInf else NInf)"
| "divide_fval NInf (Fin b) = (if b \<ge> 0 then NInf else PInf)"
| "divide_fval PInf PInf = NaN"
| "divide_fval PInf NInf = NaN"
| "divide_fval NInf PInf = NaN"
| "divide_fval NInf NInf = NaN"

definition inverse_fval :: "fval \<Rightarrow> fval" where
  "inverse_fval a = Fin 1 div a"

fun less_fval :: "fval \<Rightarrow> fval \<Rightarrow> bool" where
  "less_fval (Fin a) (Fin b) = (a < b)"
| "less_fval NaN b = False"
| "less_fval a NaN = False"
| "less_fval (Fin a) PInf = True"
| "less_fval NInf (Fin b) = True"
| "less_fval NInf PInf = True"
| "less_fval a b = False"

fun less_eq_fval :: "fval \<Rightarrow> fval \<Rightarrow> bool" where
  "less_eq_fval (Fin a) (Fin b) = (a \<le> b)"
| "less_eq_fval NaN b = False"
| "less_eq_fval a NaN = False"
| "less_eq_fval NInf b = True"
| "less_eq_fval a PInf = True"
| "less_eq_fval a b = False"

instance ..

end

text \<open>\<^verbatim>\<open>sqrtf\<close>, and \<^verbatim>\<open>std::max(a, b)\<close>, which is \<^verbatim>\<open>(a < b) ? b : a\<close>.\<close>

fun sqrtf :: "fval \<Rightarrow> fval" where
  "sqrtf (Fin a) = (if a \<ge> 0 then Fin (sqrt a) else NaN)"
| "sqrtf PInf = PInf"
| "sqrtf NInf = NaN"
| "sqrtf NaN = NaN"

definition std_max :: "fval \<Rightarrow> fval \<Rightarrow> fval" where
  "std_max a b = (if a < b then b else a)"

text \<open>A vector whose components may be special, with \<^verbatim>\<open>v * s\<close> and \<^verbatim>\<open>a + b\<close>.\<close>

datatype fvec = FVec fval fval fval

definition fscale :: "Vec3f \<Rightarrow> fval \<Rightarrow> fvec" where
  "fscale v s = FVec (Fin (vx v) * s) (Fin (vy v) * s) (Fin (vz v) * s)"

fun fvec_add :: "fvec \<Rightarrow> fvec \<Rightarrow> fvec" where
  "fvec_add (FVec a b c) (FVec a' b' c') = FVec (a + a') (b + b') (c + c')"

text \<open>The vector of finite numbers that an \<open>fvec\<close> is, if all its components are finite.\<close>

fun finite_vec :: "fvec \<Rightarrow> Vec3f option" where
  "finite_vec (FVec (Fin a) (Fin b) (Fin c)) = Some (Vec3f a b c)"
| "finite_vec v = None"

text \<open>\<^verbatim>\<open>std::clamp(v, lo, hi)\<close>.\<close>

definition clamp :: "real \<Rightarrow> real \<Rightarrow> real \<Rightarrow> real" where
  "clamp v lo hi = (if v < lo then lo else if hi < v then hi else v)"

text \<open>\<^verbatim>\<open>fresnel\<close> returns \<^verbatim>\<open>kr\<close>, which the source writes through a reference.\<close>

definition fresnel :: "Vec3f \<Rightarrow> Vec3f \<Rightarrow> real \<Rightarrow> fval" where
  "fresnel I N ior =
     (let cosi = clamp (dot I N) (- 1) 1;
          etai = (if cosi > 0 then ior else 1);
          etat = (if cosi > 0 then 1 else ior);
          sint = Fin etai / Fin etat * sqrtf (std_max (Fin 0) (Fin (1 - cosi * cosi))) in
      if sint \<ge> Fin 1 then Fin 1
      else
        (let cost = sqrtf (std_max (Fin 0) (Fin 1 - sint * sint));
             cosi = \<bar>cosi\<bar>;
             Rs = ((Fin etat * Fin cosi) - (Fin etai * cost))
                  / ((Fin etat * Fin cosi) + (Fin etai * cost));
             Rp = ((Fin etai * Fin cosi) - (Fin etat * cost))
                  / ((Fin etai * Fin cosi) + (Fin etat * cost)) in
         (Rs * Rs + Rp * Rp) / Fin 2))"

text \<open>
  The values of the local variables \<^verbatim>\<open>cosi\<close> (before \<^verbatim>\<open>fabsf\<close>), \<^verbatim>\<open>etai\<close>,
  \<^verbatim>\<open>etat\<close> (after the swap) and \<^verbatim>\<open>sint\<close> in an invocation of \<^verbatim>\<open>fresnel\<close>.
\<close>

definition fresnel_cosi :: "Vec3f \<Rightarrow> Vec3f \<Rightarrow> real" where
  "fresnel_cosi I N = clamp (dot I N) (- 1) 1"

definition fresnel_etai :: "Vec3f \<Rightarrow> Vec3f \<Rightarrow> real \<Rightarrow> real" where
  "fresnel_etai I N ior = (if fresnel_cosi I N > 0 then ior else 1)"

definition fresnel_etat :: "Vec3f \<Rightarrow> Vec3f \<Rightarrow> real \<Rightarrow> real" where
  "fresnel_etat I N ior = (if fresnel_cosi I N > 0 then 1 else ior)"

definition fresnel_sint :: "Vec3f \<Rightarrow> Vec3f \<Rightarrow> real \<Rightarrow> fval" where
  "fresnel_sint I N ior =
     Fin (fresnel_etai I N ior) / Fin (fresnel_etat I N ior)
       * sqrtf (std_max (Fin 0) (Fin (1 - fresnel_cosi I N * fresnel_cosi I N)))"

definition reflect :: "Vec3f \<Rightarrow> Vec3f \<Rightarrow> Vec3f" where
  "reflect I N = I - scale (scale N 2) (dot I N)"

text \<open>The cosine and the discriminant \<^verbatim>\<open>k\<close> that one invocation of \<^verbatim>\<open>refract\<close> computes.\<close>

definition refract_cosi :: "Vec3f \<Rightarrow> Vec3f \<Rightarrow> real" where
  "refract_cosi I N = - max (- 1) (min 1 (dot I N))"

definition refract_k :: "Vec3f \<Rightarrow> Vec3f \<Rightarrow> real \<Rightarrow> real \<Rightarrow> fval" where
  "refract_k I N eta_t eta_i =
     (let eta = Fin eta_i / Fin eta_t in
      Fin 1 - eta * eta * Fin (1 - refract_cosi I N * refract_cosi I N))"

function refract :: "Vec3f \<Rightarrow> Vec3f \<Rightarrow> real \<Rightarrow> real \<Rightarrow> fvec" where
  "refract I N eta_t eta_i =
     (let cosi = refract_cosi I N in
      if cosi < 0 then refract I (- N) eta_i eta_t
      else
        (let eta = Fin eta_i / Fin eta_t;
             k = refract_k I N eta_t eta_i in
         if k < Fin 0 then FVec (Fin 1) (Fin 0) (Fin 0)
         else fvec_add (fscale I eta) (fscale N (eta * Fin cosi - sqrtf k))))"
  by pat_completeness auto

termination refract
  by (relation "measure (\<lambda>(I, N, eta_t, eta_i). if refract_cosi I N < 0 then 1 else 0)")
     (auto simp: refract_cosi_def dot_def uminus_Vec3f_def min_def max_def split: if_splits)

declare refract.simps [simp del]

text \<open>
  The discriminant \<^verbatim>\<open>k\<close> in the invocation of \<^verbatim>\<open>refract\<close> that returns the
  direction: the first one, or the one it calls with the normal and the indices swapped.
\<close>

function refract_discriminant :: "Vec3f \<Rightarrow> Vec3f \<Rightarrow> real \<Rightarrow> real \<Rightarrow> fval" where
  "refract_discriminant I N eta_t eta_i =
     (if refract_cosi I N < 0 then refract_discriminant I (- N) eta_i eta_t
      else refract_k I N eta_t eta_i)"
  by pat_completeness auto

termination refract_discriminant
  by (relation "measure (\<lambda>(I, N, eta_t, eta_i). if refract_cosi I N < 0 then 1 else 0)")
     (auto simp: refract_cosi_def dot_def uminus_Vec3f_def min_def max_def split: if_splits)

declare refract_discriminant.simps [simp del]

section \<open>Shader\<close>

text \<open>
  \<^verbatim>\<open>powf\<close> of the C library, on the bases the source passes (\<^verbatim>\<open>std::max(0.f, .)\<close>, never
  negative): \<^verbatim>\<open>powf(b, 0)\<close> is \<open>1\<close> for every \<open>b\<close>, also for \<open>b = 0\<close>, where HOL's
  \<open>powr\<close> gives \<open>0\<close>. \<^verbatim>\<open>powf(0, e)\<close> with \<open>e < 0\<close> is an infinity and not modelled.
\<close>

definition powf :: "real \<Rightarrow> real \<Rightarrow> real" where
  "powf b e = (if e = 0 then 1 else b powr e)"

text \<open>
  The loop of \<^verbatim>\<open>cast_ray\<close> over the lights, with its two accumulators. The variables
  \<^verbatim>\<open>shadow_pt\<close>, \<^verbatim>\<open>shadow_N\<close> and \<^verbatim>\<open>tmpmaterial\<close> are default-constructed in
  every iteration.
\<close>

fun lights_loop ::
  "Light list \<Rightarrow> Vec3f \<Rightarrow> Vec3f \<Rightarrow> Vec3f \<Rightarrow> Material \<Rightarrow> sdf_model list \<Rightarrow> real \<times> real \<Rightarrow> real \<times> real" where
  "lights_loop [] dir point N material models acc = acc"
| "lights_loop (light # lights) dir point N material models
     (diffuse_light_intensity, specular_light_intensity) =
     (let light_dir = normalize (position light - point);
          light_distance = vnorm (position light - point);
          shadow_orig = (if dot light_dir N < 0 then point - scale N (1 / 1000)
                         else point + scale N (1 / 1000)) in
      case ray_marching shadow_orig light_dir models (0, 0, Material_default) of
        (shadow_hit, shadow_pt, shadow_N, tmpmaterial) \<Rightarrow>
          if shadow_hit \<and> vnorm (shadow_pt - shadow_orig) < light_distance
          then lights_loop lights dir point N material models
                 (diffuse_light_intensity, specular_light_intensity)
          else lights_loop lights dir point N material models
                 (diffuse_light_intensity + intensity light * max 0 (dot light_dir N),
                  specular_light_intensity
                    + powf (max 0 (dot (- reflect (- light_dir) N) dir)) (specular_exponent material)
                      * intensity light))"

text \<open>
  The secondary rays of \<^verbatim>\<open>cast_ray\<close>: origin and direction. The refracted ray is
  \<open>None\<close> when \<^verbatim>\<open>refract\<close> returns a direction that is not finite. That direction
  is then NaN in all three components (lemma \<open>refract_finite_or_nan\<close> below), and so
  is \<^verbatim>\<open>refract_dir\<close> after \<^verbatim>\<open>normalize\<close>.
\<close>

definition refract_ray :: "Vec3f \<Rightarrow> Vec3f \<Rightarrow> Vec3f \<Rightarrow> Material \<Rightarrow> (Vec3f \<times> Vec3f) option" where
  "refract_ray dir N point material =
     (case finite_vec (refract dir N (refractive_index material) 1) of
        None \<Rightarrow> None
      | Some v \<Rightarrow>
          (let refract_dir = normalize v;
               refract_orig = (if dot refract_dir N < 0 then point - scale N EPSILON
                               else point + scale N EPSILON) in
           Some (refract_orig, refract_dir)))"

definition reflect_ray :: "Vec3f \<Rightarrow> Vec3f \<Rightarrow> Vec3f \<Rightarrow> Vec3f \<times> Vec3f" where
  "reflect_ray dir N point =
     (let reflect_dir = normalize (reflect dir N);
          reflect_orig = (if dot reflect_dir N < 0 then point - scale N (1 / 1000)
                          else point + scale N (1 / 1000)) in
      (reflect_orig, reflect_dir))"

text \<open>
  The composite of step 5 of section 4.4 of the specification, in its words: a function
  of the material, the two light sums and the two secondary colours, and of nothing else.
\<close>

definition spec_composite :: "Material \<Rightarrow> real \<Rightarrow> real \<Rightarrow> Vec3f \<Rightarrow> Vec3f \<Rightarrow> Vec3f" where
  "spec_composite material diffuse specular reflect_color refract_color =
     scale (scale (diffuse_color material) diffuse) (vidx4 (albedo material) 0)
       + scale (scale (Vec3f 1 1 1) specular) (vidx4 (albedo material) 1)
       + scale reflect_color (vidx4 (albedo material) 2)
       + scale refract_color (vidx4 (albedo material) 3)"

definition background :: Vec3f where
  "background = Vec3f 0.2 0.7 0.8"

text \<open>
  \<^verbatim>\<open>cast_ray\<close>. The parameter \<^verbatim>\<open>depth\<close> is a \<^verbatim>\<open>size_t\<close>; it is incremented only
  where it is at most 4, so it never wraps around and a natural number stands for it.

  Where the refracted direction is NaN, the source calls \<^verbatim>\<open>cast_ray\<close> with it and
  \<^verbatim>\<open>depth + 1\<close>. That invocation returns the background colour without a further
  call: either \<^verbatim>\<open>depth + 1 > 4\<close>, or \<^verbatim>\<open>ray_marching\<close> returns \<^verbatim>\<open>false\<close>, because
  every distance \<^verbatim>\<open>scene_sdf\<close> computes at a NaN point is NaN, both of its comparisons
  are false, no model is found, and \<^verbatim>\<open>fabs(dir.y) > EPSILON\<close> is false as well. The
  case does not arise from \<^verbatim>\<open>cast_ray\<close> itself (lemma \<open>refract_ray_defined\<close> below).
\<close>

function cast_ray :: "Vec3f \<Rightarrow> Vec3f \<Rightarrow> sdf_model list \<Rightarrow> Light list \<Rightarrow> nat \<Rightarrow> Vec3f" where
  "cast_ray orig dir models lights depth =
     (if depth > 4 then background
      else
        (case ray_marching orig dir models (0, 0, Material_default) of
           (hit_found, point, N, material) \<Rightarrow>
             if \<not> hit_found then background
             else
               (let kr = fresnel dir N (refractive_index material);
                    refract_color =
                      (if kr < Fin 1
                       then (case refract_ray dir N point material of
                               None \<Rightarrow> background
                             | Some ray \<Rightarrow> cast_ray (fst ray) (snd ray) models lights (depth + 1))
                       else Vec3f 0 0 0);
                    reflect_color =
                      cast_ray (fst (reflect_ray dir N point)) (snd (reflect_ray dir N point))
                        models lights (depth + 1);
                    intensities = lights_loop lights dir point N material models (0, 0);
                    diffuse_light_intensity = fst intensities;
                    specular_light_intensity = snd intensities in
                scale (scale (diffuse_color material) diffuse_light_intensity)
                    (vidx4 (albedo material) 0)
                  + scale (scale (Vec3f 1 1 1) specular_light_intensity) (vidx4 (albedo material) 1)
                  + scale reflect_color (vidx4 (albedo material) 2)
                  + scale refract_color (vidx4 (albedo material) 3))))"
  by pat_completeness auto

termination cast_ray
  by (relation "measure (\<lambda>(orig, dir, models, lights, depth). 5 - depth)") auto

declare cast_ray.simps [simp del]

text \<open>
  The invocations of \<^verbatim>\<open>cast_ray\<close> that one call causes, itself included: the value of
  \<^verbatim>\<open>depth\<close> of each, in the order in which they start. The function follows
  \<^verbatim>\<open>cast_ray\<close> branch by branch and keeps, of each invocation, only its \<^verbatim>\<open>depth\<close>
  and its recursive calls. The invocation with a NaN direction is one invocation, at
  \<^verbatim>\<open>depth + 1\<close>, that calls no other.
\<close>

function cast_ray_calls :: "Vec3f \<Rightarrow> Vec3f \<Rightarrow> sdf_model list \<Rightarrow> Light list \<Rightarrow> nat \<Rightarrow> nat list" where
  "cast_ray_calls orig dir models lights depth =
     depth #
     (if depth > 4 then []
      else
        (case ray_marching orig dir models (0, 0, Material_default) of
           (hit_found, point, N, material) \<Rightarrow>
             if \<not> hit_found then []
             else
               (let kr = fresnel dir N (refractive_index material) in
                (if kr < Fin 1
                 then (case refract_ray dir N point material of
                         None \<Rightarrow> [depth + 1]
                       | Some ray \<Rightarrow>
                           cast_ray_calls (fst ray) (snd ray) models lights (depth + 1))
                 else [])
                @ cast_ray_calls (fst (reflect_ray dir N point)) (snd (reflect_ray dir N point))
                    models lights (depth + 1))))"
  by pat_completeness auto

termination cast_ray_calls
  by (relation "measure (\<lambda>(orig, dir, models, lights, depth). 5 - depth)") auto

declare cast_ray_calls.simps [simp del]

section \<open>Renderer: tone mapping\<close>

text \<open>
  The body of the output loop of \<^verbatim>\<open>render\<close> for one framebuffer entry \<^verbatim>\<open>c\<close>: the
  rescaling of \<^verbatim>\<open>c\<close>, and the byte written for channel \<^verbatim>\<open>j\<close>. The conversion to
  \<^verbatim>\<open>char\<close> discards the fractional part of a value between 0 and 255.
\<close>

definition tone_map :: "Vec3f \<Rightarrow> Vec3f" where
  "tone_map c =
     (let mx = max (vidx c 0) (max (vidx c 1) (vidx c 2)) in
      if mx > 1 then scale c (1 / mx) else c)"

definition quantize :: "real \<Rightarrow> 8 word" where
  "quantize v = word_of_int (to_int (255 * max 0 (min 1 v)))"

definition pixel_bytes :: "Vec3f \<Rightarrow> 8 word list" where
  "pixel_bytes c = map (\<lambda>j. quantize (vidx (tone_map c) j)) [0, 1, 2]"

section \<open>Numeric domains\<close>

text \<open>
  The arguments that reach \<^verbatim>\<open>sqrtf\<close> in one call of \<^verbatim>\<open>fresnel\<close>, of \<^verbatim>\<open>refract\<close>
  and of \<^verbatim>\<open>Sphere::ray_intersect\<close>, in the order of evaluation and on the branches
  where the source evaluates them. The length of a vector takes the root of
  \<open>norm_sqr\<close>.
\<close>

definition fresnel_radicands :: "Vec3f \<Rightarrow> Vec3f \<Rightarrow> real \<Rightarrow> fval list" where
  "fresnel_radicands I N ior =
     std_max (Fin 0) (Fin (1 - fresnel_cosi I N * fresnel_cosi I N))
     # (if fresnel_sint I N ior \<ge> Fin 1 then []
        else [std_max (Fin 0) (Fin 1 - fresnel_sint I N ior * fresnel_sint I N ior)])"

function refract_radicands :: "Vec3f \<Rightarrow> Vec3f \<Rightarrow> real \<Rightarrow> real \<Rightarrow> fval list" where
  "refract_radicands I N eta_t eta_i =
     (if refract_cosi I N < 0 then refract_radicands I (- N) eta_i eta_t
      else if refract_k I N eta_t eta_i < Fin 0 then []
      else [refract_k I N eta_t eta_i])"
  by pat_completeness auto

termination refract_radicands
  by (relation "measure (\<lambda>(I, N, eta_t, eta_i). if refract_cosi I N < 0 then 1 else 0)")
     (auto simp: refract_cosi_def dot_def uminus_Vec3f_def min_def max_def split: if_splits)

declare refract_radicands.simps [simp del]

definition ray_intersect_radicands :: "sdf_model \<Rightarrow> Vec3f \<Rightarrow> Vec3f \<Rightarrow> real list" where
  "ray_intersect_radicands s orig dir =
     (let L = center s - orig;
          tca = dot L dir in
      if tca < 0 then []
      else
        (let d2 = dot L L - tca * tca in
         if d2 > radius s * radius s then []
         else [radius s * radius s - d2]))"

text \<open>
  The divisors of the divisions in one call of \<^verbatim>\<open>fresnel\<close>: \<^verbatim>\<open>etat\<close> in
  \<^verbatim>\<open>etai / etat\<close>, then, unless \<^verbatim>\<open>sint >= 1\<close>, the denominators of \<^verbatim>\<open>Rs\<close> and
  \<^verbatim>\<open>Rp\<close>.
\<close>

definition fresnel_divisors :: "Vec3f \<Rightarrow> Vec3f \<Rightarrow> real \<Rightarrow> fval list" where
  "fresnel_divisors I N ior =
     Fin (fresnel_etat I N ior)
     # (if fresnel_sint I N ior \<ge> Fin 1 then []
        else
          (let cost = sqrtf (std_max (Fin 0) (Fin 1 - fresnel_sint I N ior * fresnel_sint I N ior));
               cosi = \<bar>fresnel_cosi I N\<bar>;
               etai = fresnel_etai I N ior;
               etat = fresnel_etat I N ior in
           [(Fin etat * Fin cosi) + (Fin etai * cost), (Fin etai * Fin cosi) + (Fin etat * cost)]))"

section \<open>An example scene\<close>

text \<open>
  A sphere of radius \<open>10\<^sup>6\<close> whose surface passes the line \<open>x = 0, z = -20\<close> at
  distance 1: a ray along that line stays between 1 and 2 away from it for a long
  stretch, so the marcher uses up its steps there.
\<close>

definition far_sphere :: sdf_model where
  "far_sphere = Sphere Material_default (Vec3f 1000001 0 (- 20)) 1000000"

section \<open>Auxiliary facts\<close>

lemma scale_zero_right: "scale v 0 = 0"
  by (simp add: scale_def zero_Vec3f_def)

lemma scale_one_right: "scale v 1 = v"
  by (cases v) (simp add: scale_def)

lemma Vec3f_add_zero: "v + (0::Vec3f) = v"
  by (cases v) (simp add: plus_Vec3f_def zero_Vec3f_def)

lemma marching_loop_no_models:
  "marching_loop MAX_MARCHING_STEPS orig dir [] depth = NoModel"
  by (simp add: MAX_MARCHING_STEPS_def numeral_eq_Suc scene_sdf_def)

lemma loop_missed_no_models: "loop_missed orig dir []"
  by (simp add: loop_missed_def marching_loop_no_models)

lemma ray_marching_missed:
  "loop_missed orig dir models \<Longrightarrow>
   ray_marching orig dir models out =
     (min MAX_DISTANCE (fst (checkerboard orig dir out)) < 1000, snd (checkerboard orig dir out))"
  by (auto simp: loop_missed_def ray_marching_def split: loop_exit.splits prod.splits)

lemma cast_ray_unfold:
  "cast_ray orig dir models lights depth =
     (if depth > 4 then background
      else if \<not> fst (ray_marching orig dir models (0, 0, Material_default)) then background
      else
        (let point = fst (snd (ray_marching orig dir models (0, 0, Material_default)));
             N = fst (snd (snd (ray_marching orig dir models (0, 0, Material_default))));
             material = snd (snd (snd (ray_marching orig dir models (0, 0, Material_default))))
         in spec_composite material
              (fst (lights_loop lights dir point N material models (0, 0)))
              (snd (lights_loop lights dir point N material models (0, 0)))
              (cast_ray (fst (reflect_ray dir N point)) (snd (reflect_ray dir N point))
                 models lights (depth + 1))
              (if fresnel dir N (refractive_index material) < Fin 1
               then (case refract_ray dir N point material of
                       None \<Rightarrow> background
                     | Some ray \<Rightarrow> cast_ray (fst ray) (snd ray) models lights (depth + 1))
               else Vec3f 0 0 0)))"
  by (subst cast_ray.simps) (simp add: spec_composite_def Let_def split: prod.splits)

lemma cast_ray_calls_unfold:
  "cast_ray_calls orig dir models lights depth =
     depth #
     (if depth > 4 \<or> \<not> fst (ray_marching orig dir models (0, 0, Material_default)) then []
      else
        (let point = fst (snd (ray_marching orig dir models (0, 0, Material_default)));
             N = fst (snd (snd (ray_marching orig dir models (0, 0, Material_default))));
             material = snd (snd (snd (ray_marching orig dir models (0, 0, Material_default))))
         in (if fresnel dir N (refractive_index material) < Fin 1
             then (case refract_ray dir N point material of
                     None \<Rightarrow> [depth + 1]
                   | Some ray \<Rightarrow> cast_ray_calls (fst ray) (snd ray) models lights (depth + 1))
             else [])
            @ cast_ray_calls (fst (reflect_ray dir N point)) (snd (reflect_ray dir N point))
                models lights (depth + 1)))"
  by (subst cast_ray_calls.simps) (simp add: Let_def split: prod.splits)

lemma cast_ray_calls_deep: "depth > 4 \<Longrightarrow> cast_ray_calls orig dir models lights depth = [depth]"
  by (subst cast_ray_calls_unfold) simp

lemma cast_ray_calls_length:
  "depth + n = 5 \<Longrightarrow> length (cast_ray_calls orig dir models lights depth) < 2 ^ (n + 1)"
proof (induction n arbitrary: orig dir depth)
  case 0
  then show ?case by (simp add: cast_ray_calls_deep)
next
  case (Suc n)
  have step: "Suc depth + n = 5" using Suc.prems by simp
  have sub: "length (cast_ray_calls orig' dir' models lights (depth + 1)) < 2 ^ (n + 1)"
    for orig' dir'
    using Suc.IH [OF step] by simp
  show ?case
  proof (cases "depth > 4 \<or> \<not> fst (ray_marching orig dir models (0, 0, Material_default))")
    case True
    then have "cast_ray_calls orig dir models lights depth = [depth]"
      by (subst cast_ray_calls_unfold) simp
    moreover have "(1::nat) \<le> 2 ^ n" by simp
    then have "(1::nat) < 4 * 2 ^ n" by linarith
    ultimately show ?thesis by simp
  next
    case False
    define point where "point = fst (snd (ray_marching orig dir models (0, 0, Material_default)))"
    define N where "N = fst (snd (snd (ray_marching orig dir models (0, 0, Material_default))))"
    define material where
      "material = snd (snd (snd (ray_marching orig dir models (0, 0, Material_default))))"
    define refr where "refr = (if fresnel dir N (refractive_index material) < Fin 1
             then (case refract_ray dir N point material of
                     None \<Rightarrow> [depth + 1]
                   | Some ray \<Rightarrow> cast_ray_calls (fst ray) (snd ray) models lights (depth + 1))
             else [])"
    define refl where "refl = cast_ray_calls (fst (reflect_ray dir N point))
                (snd (reflect_ray dir N point)) models lights (depth + 1)"
    have eq: "cast_ray_calls orig dir models lights depth = depth # refr @ refl"
      using False
      by (subst cast_ray_calls_unfold)
         (simp add: Let_def point_def N_def material_def refr_def refl_def)
    have "(1::nat) \<le> 2 ^ n" by simp
    then have "(1::nat) < 2 * 2 ^ n" by linarith
    then have "(1::nat) < 2 ^ (n + 1)" by simp
    then have "length refr < 2 ^ (n + 1)"
      unfolding refr_def using sub by (simp split: option.splits)
    moreover have "length refl < 2 ^ (n + 1)"
      unfolding refl_def using sub by simp
    ultimately show ?thesis
      unfolding eq by simp
  qed
qed

lemma cast_ray_calls_range:
  "depth + n = 5 \<Longrightarrow> k \<in> set (cast_ray_calls orig dir models lights depth)
     \<Longrightarrow> depth \<le> k \<and> k \<le> 5"
proof (induction n arbitrary: orig dir depth)
  case 0
  then show ?case by (simp add: cast_ray_calls_deep)
next
  case (Suc n)
  have step: "Suc depth + n = 5" using Suc.prems by simp
  have sub: "k \<in> set (cast_ray_calls orig' dir' models lights (depth + 1))
      \<Longrightarrow> Suc depth \<le> k \<and> k \<le> 5" for orig' dir'
    using Suc.IH [OF step] by simp
  from Suc.prems(2) have
    "k = depth \<or> k = depth + 1
     \<or> (\<exists>orig' dir'. k \<in> set (cast_ray_calls orig' dir' models lights (depth + 1)))"
    by (subst (asm) cast_ray_calls_unfold) (auto simp: Let_def split: if_splits option.splits)
  then show ?case
  proof (elim disjE)
    assume "k = depth"
    then show ?thesis using Suc.prems(1) by simp
  next
    assume "k = depth + 1"
    then show ?thesis using Suc.prems(1) by simp
  next
    assume "\<exists>orig' dir'. k \<in> set (cast_ray_calls orig' dir' models lights (depth + 1))"
    then obtain orig' dir' where "k \<in> set (cast_ray_calls orig' dir' models lights (depth + 1))"
      by blast
    from sub [OF this] show ?thesis by simp
  qed
qed

lemma checkerboard_upward:
  "checkerboard (Vec3f 0 0 0) (Vec3f 0 1 0) out = (FLT_MAX, out)"
  by (cases out) (simp add: checkerboard_def EPSILON_def)

lemma ray_marching_upward:
  "ray_marching (Vec3f 0 0 0) (Vec3f 0 1 0) [] out = (False, out)"
  by (simp add: ray_marching_missed [OF loop_missed_no_models] checkerboard_upward
      MAX_DISTANCE_def FLT_MAX_def)

lemma and_one_odd: "((a::int) AND 1 \<noteq> 0) = odd a"
  by (simp add: and_one_eq odd_iff_mod_2_eq_one)

lemma to_int_nonneg: "0 \<le> v \<Longrightarrow> to_int v = \<lfloor>v\<rfloor>"
  by (simp add: to_int_def)

lemma to_int_neg: "v < 0 \<Longrightarrow> to_int v = \<lceil>v\<rceil>"
  by (simp add: to_int_def)

lemma checkerboard_cases:
  "checkerboard orig dir (hit0, N0, material0) = (cd, hit, N, material) \<Longrightarrow>
   min MAX_DISTANCE cd < 1000 \<Longrightarrow>
   \<bar>vy dir\<bar> > EPSILON \<and> cd = - (vy orig + 4) / vy dir \<and> hit = orig + scale dir cd
   \<and> cd > 0 \<and> \<bar>vx hit\<bar> < 10 \<and> vz hit < - 10 \<and> vz hit > - 30
   \<and> N = Vec3f 0 1 0
   \<and> material = material0\<lparr>diffuse_color :=
        (if (to_int (0.5 * vx hit + 1000) + to_int (0.5 * vz hit)) AND 1 \<noteq> 0
         then Vec3f 0.3 0.3 0.3 else Vec3f 0.3 0.2 0.1)\<rparr>"
  by (auto simp: checkerboard_def Let_def MAX_DISTANCE_def FLT_MAX_def split: if_splits)

lemma ray_marching_plane_hit:
  assumes "loop_missed orig dir models"
    and "ray_marching orig dir models (hit0, N0, material0) = (True, hit, N, material)"
  shows "\<bar>vy dir\<bar> > EPSILON \<and> hit = orig + scale dir (- (vy orig + 4) / vy dir)
   \<and> \<bar>vx hit\<bar> < 10 \<and> vz hit < - 10 \<and> vz hit > - 30
   \<and> N = Vec3f 0 1 0
   \<and> material = material0\<lparr>diffuse_color :=
        (if (to_int (0.5 * vx hit + 1000) + to_int (0.5 * vz hit)) AND 1 \<noteq> 0
         then Vec3f 0.3 0.3 0.3 else Vec3f 0.3 0.2 0.1)\<rparr>"
proof -
  obtain cd where cb: "checkerboard orig dir (hit0, N0, material0) = (cd, hit, N, material)"
    and lt: "min MAX_DISTANCE cd < 1000"
    using assms
    by (cases "checkerboard orig dir (hit0, N0, material0)") (simp add: ray_marching_missed)
  from checkerboard_cases [OF cb lt] show ?thesis by blast
qed

lemma checkerboard_example:
  "checkerboard (Vec3f 0 0 0) (Vec3f 0 (- 4) (- 20)) (0, 0, Material_default) =
     (1, Vec3f 0 (- 4) (- 20), Vec3f 0 1 0,
      Material_default\<lparr>diffuse_color := Vec3f 0.3 0.2 0.1\<rparr>)"
  by (simp add: checkerboard_def EPSILON_def plus_Vec3f_def scale_def to_int_def and_one_eq)

lemma checkerboard_example_odd:
  "checkerboard (Vec3f 0 0 0) (Vec3f 0 (- 4) (- 19)) (0, 0, Material_default) =
     (1, Vec3f 0 (- 4) (- 19), Vec3f 0 1 0,
      Material_default\<lparr>diffuse_color := Vec3f 0.3 0.3 0.3\<rparr>)"
  by (simp add: checkerboard_def EPSILON_def plus_Vec3f_def scale_def to_int_def and_one_eq)

lemma ray_marching_example:
  "ray_marching (Vec3f 0 0 0) (Vec3f 0 (- 4) (- 20)) [] (0, 0, Material_default) =
     (True, Vec3f 0 (- 4) (- 20), Vec3f 0 1 0,
      Material_default\<lparr>diffuse_color := Vec3f 0.3 0.2 0.1\<rparr>)"
  by (simp add: ray_marching_missed [OF loop_missed_no_models] checkerboard_example
      MAX_DISTANCE_def)

lemma ray_marching_example_odd:
  "ray_marching (Vec3f 0 0 0) (Vec3f 0 (- 4) (- 19)) [] (0, 0, Material_default) =
     (True, Vec3f 0 (- 4) (- 19), Vec3f 0 1 0,
      Material_default\<lparr>diffuse_color := Vec3f 0.3 0.3 0.3\<rparr>)"
  by (simp add: ray_marching_missed [OF loop_missed_no_models] checkerboard_example_odd
      MAX_DISTANCE_def)

lemma far_sphere_sdf:
  assumes "0 \<le> t" "t \<le> 1000"
  shows "1 \<le> sdf far_sphere (Vec3f 0 0 (- 20) + scale (Vec3f 0 (- 1) 0) t)
    \<and> sdf far_sphere (Vec3f 0 0 (- 20) + scale (Vec3f 0 (- 1) 0) t) \<le> 2"
proof -
  have eq: "sdf far_sphere (Vec3f 0 0 (- 20) + scale (Vec3f 0 (- 1) 0) t)
      = sqrt (1000001\<^sup>2 + t\<^sup>2) - 1000000"
    by (simp add: far_sphere_def vnorm_def norm_sqr_def plus_Vec3f_def minus_Vec3f_def
        scale_def power2_eq_square)
  have "t\<^sup>2 \<le> 1000\<^sup>2"
    using assms by (intro power_mono) simp_all
  then have "1000001\<^sup>2 + t\<^sup>2 \<le> (1000002::real)\<^sup>2" by simp
  then have up: "sqrt (1000001\<^sup>2 + t\<^sup>2) \<le> 1000002"
    by (intro real_le_lsqrt) simp_all
  have "(1000001::real)\<^sup>2 \<le> 1000001\<^sup>2 + t\<^sup>2" by simp
  then have lo: "1000001 \<le> sqrt (1000001\<^sup>2 + t\<^sup>2)"
    by (intro real_le_rsqrt)
  from up lo show ?thesis unfolding eq by simp
qed

lemma far_sphere_march:
  "0 \<le> depth \<Longrightarrow> depth + 2 * real n \<le> 1000 \<Longrightarrow>
   marching_loop n (Vec3f 0 0 (- 20)) (Vec3f 0 (- 1) 0) [far_sphere] depth = BudgetExhausted"
proof (induction n arbitrary: depth)
  case 0
  then show ?case by simp
next
  case (Suc n)
  let ?d = "sdf far_sphere (Vec3f 0 0 (- 20) + scale (Vec3f 0 (- 1) 0) depth)"
  from Suc.prems have "depth \<le> 1000" by simp
  with Suc.prems far_sphere_sdf [of depth] have d: "1 \<le> ?d" "?d \<le> 2" by simp_all
  then have sc: "scene_sdf (Vec3f 0 0 (- 20) + scale (Vec3f 0 (- 1) 0) depth) [far_sphere]
      = (?d, Some far_sphere)"
    by (simp add: scene_sdf_def Let_def MAX_DISTANCE_def)
  have "marching_loop n (Vec3f 0 0 (- 20)) (Vec3f 0 (- 1) 0) [far_sphere] (depth + ?d)
      = BudgetExhausted"
    using Suc.prems d by (intro Suc.IH) simp_all
  then show ?case
    using d by (simp add: sc EPSILON_def del: sdf.simps)
qed

lemma far_sphere_exhausts:
  "marching_loop MAX_MARCHING_STEPS (Vec3f 0 0 (- 20)) (Vec3f 0 (- 1) 0) [far_sphere] EPSILON
     = BudgetExhausted"
  by (rule far_sphere_march) (simp_all add: EPSILON_def MAX_MARCHING_STEPS_def)

lemma scene_sdf_loop_result:
  "scene_sdf_loop p ms (md, hm) = (md', hm') \<Longrightarrow>
     (md' = md \<and> hm' = hm \<and> (\<forall>m \<in> set ms. sdf m p < 0 \<or> md \<le> sdf m p))
     \<or> (\<exists>m \<in> set ms. hm' = Some m \<and> md' = sdf m p \<and> 0 \<le> md' \<and> md' < md
          \<and> (\<forall>m' \<in> set ms. sdf m' p < 0 \<or> md' \<le> sdf m' p))"
proof (induction ms arbitrary: md hm)
  case Nil
  then show ?case by simp
next
  case (Cons a ms)
  show ?case
  proof (cases "sdf a p < 0 \<or> \<not> md > sdf a p")
    case True
    then have "scene_sdf_loop p ms (md, hm) = (md', hm')"
      using Cons.prems by (auto simp: Let_def split: if_splits)
    from Cons.IH [OF this] True show ?thesis by auto
  next
    case False
    then have "scene_sdf_loop p ms (sdf a p, Some a) = (md', hm')"
      using Cons.prems by (auto simp: Let_def split: if_splits)
    from Cons.IH [OF this] False show ?thesis by force
  qed
qed

lemma scene_sdf_loop_filter:
  "scene_sdf_loop p (filter (\<lambda>m. \<not> sdf m p < 0) ms) acc = scene_sdf_loop p ms acc"
  by (induction ms arbitrary: acc) (auto simp: Let_def)

lemma scene_sdf_loop_append:
  "scene_sdf_loop p (xs @ ys) acc = scene_sdf_loop p ys (scene_sdf_loop p xs acc)"
  by (induction xs arbitrary: acc) (auto simp: Let_def)

lemma sdf_center: "sdf (Sphere mat C r) C = - r"
  by (cases C) (simp add: vnorm_def norm_sqr_def minus_Vec3f_def)

lemma vnorm_axis: "vnorm (Vec3f a 0 0) = \<bar>a\<bar>"
  by (simp add: vnorm_def norm_sqr_def)

lemma refract_cosi_flip: "refract_cosi I N < 0 \<Longrightarrow> \<not> refract_cosi I (- N) < 0"
  by (simp add: refract_cosi_def dot_def uminus_Vec3f_def min_def max_def split: if_splits)

lemma quantize_uint:
  "uint (quantize v) = \<lfloor>255 * max 0 (min 1 v)\<rfloor>"
proof -
  let ?q = "255 * max 0 (min 1 v)"
  have lo: "0 \<le> ?q" by simp
  have hi: "?q \<le> 255" by (simp add: max_def min_def)
  from lo have "0 \<le> \<lfloor>?q\<rfloor>" by simp
  moreover from hi have "\<lfloor>?q\<rfloor> \<le> 255" by (simp add: floor_le_iff)
  ultimately have "\<lfloor>?q\<rfloor> mod 2 ^ 8 = \<lfloor>?q\<rfloor>" by simp
  with lo show ?thesis
    by (simp add: quantize_def to_int_def uint_word_of_int)
qed

lemma tone_map_rescaled:
  assumes "max (vidx c 0) (max (vidx c 1) (vidx c 2)) > 1"
  shows "max (vidx (tone_map c) 0) (max (vidx (tone_map c) 1) (vidx (tone_map c) 2)) = 1"
proof -
  let ?m = "max (vidx c 0) (max (vidx c 1) (vidx c 2))"
  from assms have pos: "0 < 1 / ?m" by simp
  have sc: "vidx (scale c k) i = vidx c i * k" for k i
    by (cases c) (simp add: scale_def)
  have mx: "max (a * k) (max (b * k) (d * k)) = max a (max b d) * k" if "0 < k" for a b d k :: real
    using that by (simp add: max_def)
  from assms have tm: "tone_map c = scale c (1 / ?m)" by (simp add: tone_map_def Let_def)
  have "max (vidx (tone_map c) 0) (max (vidx (tone_map c) 1) (vidx (tone_map c) 2))
      = ?m * (1 / ?m)"
    unfolding tm sc using mx [OF pos] by simp
  also have "\<dots> = 1" using assms by simp
  finally show ?thesis .
qed

lemma fresnel_unfold:
  "fresnel I N ior =
     (if fresnel_sint I N ior \<ge> Fin 1 then Fin 1
      else
        (let cost = sqrtf (std_max (Fin 0) (Fin 1 - fresnel_sint I N ior * fresnel_sint I N ior));
             cosi = \<bar>fresnel_cosi I N\<bar>;
             etai = fresnel_etai I N ior;
             etat = fresnel_etat I N ior;
             Rs = ((Fin etat * Fin cosi) - (Fin etai * cost))
                  / ((Fin etat * Fin cosi) + (Fin etai * cost));
             Rp = ((Fin etai * Fin cosi) - (Fin etat * cost))
                  / ((Fin etai * Fin cosi) + (Fin etat * cost)) in
         (Rs * Rs + Rp * Rp) / Fin 2))"
  by (simp add: fresnel_def fresnel_sint_def fresnel_cosi_def fresnel_etai_def fresnel_etat_def
      Let_def)

lemma refract_negative_discriminant:
  "refract_discriminant I N eta_t eta_i < Fin 0 \<Longrightarrow>
   refract I N eta_t eta_i = FVec (Fin 1) (Fin 0) (Fin 0)"
proof (cases "refract_cosi I N < 0")
  case True
  assume neg: "refract_discriminant I N eta_t eta_i < Fin 0"
  from True have flip: "\<not> refract_cosi I (- N) < 0" by (rule refract_cosi_flip)
  from True have "refract_discriminant I N eta_t eta_i = refract_discriminant I (- N) eta_i eta_t"
    by (subst refract_discriminant.simps) simp
  also from flip have "\<dots> = refract_k I (- N) eta_i eta_t"
    by (subst refract_discriminant.simps) simp
  finally have k: "refract_k I (- N) eta_i eta_t < Fin 0" using neg by simp
  from True have "refract I N eta_t eta_i = refract I (- N) eta_i eta_t"
    by (subst refract.simps) simp
  also from flip k have "\<dots> = FVec (Fin 1) (Fin 0) (Fin 0)"
    by (subst refract.simps) (simp add: Let_def)
  finally show ?thesis .
next
  case False
  assume neg: "refract_discriminant I N eta_t eta_i < Fin 0"
  from False have "refract_discriminant I N eta_t eta_i = refract_k I N eta_t eta_i"
    by (subst refract_discriminant.simps) simp
  with neg have "refract_k I N eta_t eta_i < Fin 0" by simp
  with False show ?thesis
    by (subst refract.simps) (simp add: Let_def)
qed

lemma std_max_zero_finite: "std_max (Fin 0) (Fin v) = Fin (max 0 v)"
  by (simp add: std_max_def max_def)

lemma std_max_zero_nonneg: "Fin 0 \<le> std_max (Fin 0) y"
  by (cases y) (simp_all add: std_max_def)

lemma sqrtf_std_max_finite: "sqrtf (std_max (Fin 0) (Fin v)) = Fin (sqrt (max 0 v))"
  by (simp add: std_max_zero_finite)

lemma refract_cosi_range: "- 1 \<le> refract_cosi I N \<and> refract_cosi I N \<le> 1"
  by (simp add: refract_cosi_def min_def max_def)

lemma refract_k_finite:
  "eta_t \<noteq> 0 \<Longrightarrow> refract_k I N eta_t eta_i =
     Fin (1 - (eta_i / eta_t) * (eta_i / eta_t) * (1 - refract_cosi I N * refract_cosi I N))"
  by (simp add: refract_k_def minus_fval_def)

lemma refract_k_zero_divisor:
  "refract_k I N 0 eta_i = NInf \<or> refract_k I N 0 eta_i = NaN"
proof -
  have "0 \<le> 1 - refract_cosi I N * refract_cosi I N"
    using refract_cosi_range [of I N]
    by (simp add: abs_square_le_1 [unfolded power2_eq_square] abs_le_iff)
  then show ?thesis
    by (cases "eta_i > 0"; cases "eta_i < 0";
        cases "0 < 1 - refract_cosi I N * refract_cosi I N")
       (auto simp: refract_k_def minus_fval_def)
qed


lemma refract_step:
  "\<not> refract_cosi I N < 0 \<Longrightarrow>
   refract I N eta_t eta_i =
     (if refract_k I N eta_t eta_i < Fin 0 then FVec (Fin 1) (Fin 0) (Fin 0)
      else fvec_add (fscale I (Fin eta_i / Fin eta_t))
             (fscale N (Fin eta_i / Fin eta_t * Fin (refract_cosi I N)
                        - sqrtf (refract_k I N eta_t eta_i))))"
  by (subst refract.simps) (simp add: Let_def)

lemma refract_swap:
  "refract_cosi I N < 0 \<Longrightarrow> refract I N eta_t eta_i = refract I (- N) eta_i eta_t"
  by (subst refract.simps) simp

lemma refract_step_finite:
  assumes "\<not> refract_cosi I N < 0" and "eta_t \<noteq> 0"
  shows "finite_vec (refract I N eta_t eta_i) \<noteq> None"
  using assms
  by (cases I; cases N)
     (simp add: refract_step refract_k_finite fscale_def minus_fval_def)

lemma refract_step_nan:
  assumes "\<not> refract_cosi I N < 0"
  shows "finite_vec (refract I N 0 eta_i) \<noteq> None \<or> refract I N 0 eta_i = FVec NaN NaN NaN"
proof -
  from refract_k_zero_divisor [of I N eta_i] show ?thesis
  proof
    assume "refract_k I N 0 eta_i = NInf"
    then show ?thesis using assms by (simp add: refract_step)
  next
    assume k: "refract_k I N 0 eta_i = NaN"
    have "x + - NaN = NaN" for x :: fval by (cases x) simp_all
    then have "fscale N (x - sqrtf NaN) = FVec NaN NaN NaN" for x
      by (simp add: fscale_def minus_fval_def)
    moreover have "fvec_add v (FVec NaN NaN NaN) = FVec NaN NaN NaN" for v
    proof (cases v)
      case (FVec a b c)
      have "x + NaN = NaN" for x :: fval by (cases x) simp_all
      then show ?thesis by (simp add: FVec)
    qed
    ultimately show ?thesis using assms by (simp add: refract_step k)
  qed
qed

lemma refract_finite_or_nan:
  "finite_vec (refract I N eta_t eta_i) \<noteq> None \<or> refract I N eta_t eta_i = FVec NaN NaN NaN"
proof -
  have step: "finite_vec (refract I' N' a b) \<noteq> None \<or> refract I' N' a b = FVec NaN NaN NaN"
    if "\<not> refract_cosi I' N' < 0" for I' N' a b
    using that refract_step_finite [of I' N' a b] refract_step_nan [of I' N' b]
    by (cases "a = 0") auto
  show ?thesis
  proof (cases "refract_cosi I N < 0")
    case True
    then show ?thesis
      using step [OF refract_cosi_flip [OF True], of eta_i eta_t] by (simp add: refract_swap)
  next
    case False
    then show ?thesis by (rule step)
  qed
qed

lemma fresnel_cosi_refract_cosi: "fresnel_cosi I N = - refract_cosi I N"
  by (simp add: fresnel_cosi_def refract_cosi_def clamp_def min_def max_def)

lemma fresnel_zero_index:
  assumes "fresnel_cosi I N \<le> 0"
  shows "\<not> fresnel I N 0 < Fin 1"
proof -
  define s where "s = sqrt (max 0 (1 - fresnel_cosi I N * fresnel_cosi I N))"
  have s_ge: "0 \<le> s" by (simp add: s_def)
  have sint: "fresnel_sint I N 0 = PInf * Fin s"
    using assms by (simp add: fresnel_sint_def fresnel_etai_def fresnel_etat_def
        sqrtf_std_max_finite s_def)
  show ?thesis
  proof (cases "0 < s")
    case True
    then have "fresnel_sint I N 0 = PInf" by (simp add: sint)
    then show ?thesis by (simp add: fresnel_unfold)
  next
    case False
    with s_ge have "s = 0" by simp
    then have nan: "fresnel_sint I N 0 = NaN" by (simp add: sint)
    from assms have "fresnel_etai I N 0 = 1" "fresnel_etat I N 0 = 0"
      by (simp_all add: fresnel_etai_def fresnel_etat_def)
    then have "fresnel I N 0 = NaN"
      by (simp add: fresnel_unfold nan std_max_def minus_fval_def Let_def)
    then show ?thesis by simp
  qed
qed

lemma refract_ray_defined:
  assumes "fresnel dir N (refractive_index material) < Fin 1"
  shows "refract_ray dir N point material \<noteq> None"
proof -
  let ?ior = "refractive_index material"
  have "finite_vec (refract dir N ?ior 1) \<noteq> None"
  proof (cases "refract_cosi dir N < 0")
    case True
    then show ?thesis
      using refract_step_finite [OF refract_cosi_flip [OF True], of 1 ?ior]
      by (simp add: refract_swap)
  next
    case False
    then have c: "fresnel_cosi dir N \<le> 0" by (simp add: fresnel_cosi_refract_cosi)
    have "?ior \<noteq> 0"
    proof
      assume "?ior = 0"
      with assms fresnel_zero_index [OF c] show False by simp
    qed
    with False show ?thesis by (rule refract_step_finite)
  qed
  then show ?thesis
    by (auto simp: refract_ray_def Let_def split: option.splits)
qed


lemma refract_radicands_not_negative:
  "r \<in> set (refract_radicands I N eta_t eta_i) \<Longrightarrow> \<not> r < Fin 0"
proof (cases "refract_cosi I N < 0")
  case True
  assume r: "r \<in> set (refract_radicands I N eta_t eta_i)"
  from True have flip: "\<not> refract_cosi I (- N) < 0" by (rule refract_cosi_flip)
  from True have "refract_radicands I N eta_t eta_i = refract_radicands I (- N) eta_i eta_t"
    by (subst refract_radicands.simps) simp
  also from flip have "\<dots> = (if refract_k I (- N) eta_i eta_t < Fin 0 then []
      else [refract_k I (- N) eta_i eta_t])"
    by (subst refract_radicands.simps) simp
  finally show ?thesis using r by (simp split: if_splits)
next
  case False
  assume r: "r \<in> set (refract_radicands I N eta_t eta_i)"
  from False have "refract_radicands I N eta_t eta_i = (if refract_k I N eta_t eta_i < Fin 0 then []
      else [refract_k I N eta_t eta_i])"
    by (subst refract_radicands.simps) simp
  then show ?thesis using r by (simp split: if_splits)
qed

lemma refract_radicands_nonneg:
  assumes "eta_t \<noteq> 0" and "eta_i \<noteq> 0" and "r \<in> set (refract_radicands I N eta_t eta_i)"
  shows "Fin 0 \<le> r"
proof -
  have step: "Fin 0 \<le> r'"
    if "\<not> refract_cosi I' N' < 0" "a \<noteq> 0" "r' \<in> set (refract_radicands I' N' a b)"
    for I' N' a b r'
  proof -
    from that(1) have "refract_radicands I' N' a b = (if refract_k I' N' a b < Fin 0 then []
        else [refract_k I' N' a b])"
      by (subst refract_radicands.simps) simp
    with that(2,3) show ?thesis
      by (simp add: refract_k_finite split: if_splits)
  qed
  show ?thesis
  proof (cases "refract_cosi I N < 0")
    case True
    then have "refract_radicands I N eta_t eta_i = refract_radicands I (- N) eta_i eta_t"
      by (subst refract_radicands.simps) simp
    with assms step [OF refract_cosi_flip [OF True], of eta_i r eta_t] show ?thesis by simp
  next
    case False
    with assms show ?thesis by (intro step)
  qed
qed

lemma fresnel_radicands_nonneg: "r \<in> set (fresnel_radicands I N ior) \<Longrightarrow> Fin 0 \<le> r"
  by (auto simp: fresnel_radicands_def std_max_zero_nonneg split: if_splits)

lemma fresnel_sint_finite:
  assumes "0 < ior"
  shows "fresnel_sint I N ior =
     Fin (fresnel_etai I N ior / fresnel_etat I N ior
          * sqrt (max 0 (1 - fresnel_cosi I N * fresnel_cosi I N)))"
  using assms
  by (simp add: fresnel_sint_def fresnel_etai_def fresnel_etat_def sqrtf_std_max_finite)

lemma fresnel_divisors_nonzero:
  assumes "0 < ior" and "d \<in> set (fresnel_divisors I N ior)"
  shows "d \<noteq> Fin 0"
proof -
  have etai: "0 < fresnel_etai I N ior" and etat: "0 < fresnel_etat I N ior"
    using assms(1) by (simp_all add: fresnel_etai_def fresnel_etat_def)
  define s where "s = fresnel_etai I N ior / fresnel_etat I N ior
          * sqrt (max 0 (1 - fresnel_cosi I N * fresnel_cosi I N))"
  have sint: "fresnel_sint I N ior = Fin s"
    unfolding s_def by (rule fresnel_sint_finite [OF assms(1)])
  have s_ge: "0 \<le> s" using etai etat by (simp add: s_def)
  show ?thesis
  proof (cases "s \<ge> 1")
    case True
    with assms(2) etat show ?thesis by (simp add: fresnel_divisors_def sint)
  next
    case False
    define cost where "cost = sqrt (max 0 (1 - s * s))"
    from False s_ge have "s * s < 1 * 1" by (intro mult_strict_mono') simp_all
    then have cost: "0 < cost" by (simp add: cost_def)
    have c: "0 \<le> \<bar>fresnel_cosi I N\<bar>" by simp
    have d1: "0 < fresnel_etat I N ior * \<bar>fresnel_cosi I N\<bar> + fresnel_etai I N ior * cost"
      using etai etat cost c by (intro add_nonneg_pos mult_nonneg_nonneg mult_pos_pos) simp_all
    have d2: "0 < fresnel_etai I N ior * \<bar>fresnel_cosi I N\<bar> + fresnel_etat I N ior * cost"
      using etai etat cost c by (intro add_nonneg_pos mult_nonneg_nonneg mult_pos_pos) simp_all
    have "fresnel_divisors I N ior =
        [Fin (fresnel_etat I N ior),
         Fin (fresnel_etat I N ior * \<bar>fresnel_cosi I N\<bar> + fresnel_etai I N ior * cost),
         Fin (fresnel_etai I N ior * \<bar>fresnel_cosi I N\<bar> + fresnel_etat I N ior * cost)]"
      using False
      by (simp add: fresnel_divisors_def sint minus_fval_def std_max_zero_finite cost_def Let_def)
    with assms(2) etat d1 d2 show ?thesis by auto
  qed
qed

section \<open>The shader\<close>

text \<open>
  Claim C4. \<^verbatim>\<open>cast_ray\<close> returns exactly the background colour \<open>(0.2, 0.7, 0.8)\<close>
  whenever \<open>depth > 4\<close> or \<^verbatim>\<open>ray_marching\<close> reports no hit, for every origin,
  direction, scene and light list; in particular on a scene without primitives whenever
  the ray has no checkerboard hit.
\<close>

theorem cast_ray_background:
  "(depth > 4 \<or> \<not> fst (ray_marching orig dir models (0, 0, Material_default))
      \<longrightarrow> cast_ray orig dir models lights depth = Vec3f 0.2 0.7 0.8)
   \<and> (\<not> min MAX_DISTANCE (fst (checkerboard orig dir (0, 0, Material_default))) < 1000
      \<longrightarrow> cast_ray orig dir [] lights depth = Vec3f 0.2 0.7 0.8)"
proof (intro conjI impI)
  assume "depth > 4 \<or> \<not> fst (ray_marching orig dir models (0, 0, Material_default))"
  then show "cast_ray orig dir models lights depth = Vec3f 0.2 0.7 0.8"
    by (subst cast_ray_unfold) (auto simp: background_def)
next
  assume miss: "\<not> min MAX_DISTANCE (fst (checkerboard orig dir (0, 0, Material_default))) < 1000"
  have "\<not> fst (ray_marching orig dir [] (0, 0, Material_default))"
    using miss by (simp add: ray_marching_missed [OF loop_missed_no_models])
  then show "cast_ray orig dir [] lights depth = Vec3f 0.2 0.7 0.8"
    by (subst cast_ray_unfold) (auto simp: background_def)
qed

theorem cast_ray_background_witness:
  "((5::nat) > 4 \<or> \<not> fst (ray_marching (Vec3f 0 0 0) (Vec3f 0 1 0) [] (0, 0, Material_default)))
   \<and> cast_ray (Vec3f 0 0 0) (Vec3f 0 1 0) [] [] 5 = Vec3f 0.2 0.7 0.8
   \<and> \<not> min MAX_DISTANCE (fst (checkerboard (Vec3f 0 0 0) (Vec3f 0 1 0) (0, 0, Material_default)))
        < 1000
   \<and> cast_ray (Vec3f 0 0 0) (Vec3f 0 1 0) [] [] 0 = Vec3f 0.2 0.7 0.8"
  using cast_ray_background [of 5 "Vec3f 0 0 0" "Vec3f 0 1 0" "[]" "[]"]
    cast_ray_background [of 0 "Vec3f 0 0 0" "Vec3f 0 1 0" "[]" "[]"]
  by (simp add: checkerboard_upward MAX_DISTANCE_def FLT_MAX_def)

text \<open>
  Claim C5. One top-level call of \<^verbatim>\<open>cast_ray\<close> (\<open>depth = 0\<close>) causes finitely many
  invocations, at most \<open>63 = 1 + 2 + 4 + 8 + 16 + 32\<close>, none of them with a \<^verbatim>\<open>depth\<close>
  above 5; an invocation with \<open>depth > 4\<close> makes no recursive call. That \<^verbatim>\<open>cast_ray\<close>
  returns on every input is its termination proof above.
\<close>

theorem cast_ray_recursion_bounded:
  "length (cast_ray_calls orig dir models lights 0) \<le> 63
   \<and> (\<forall>k \<in> set (cast_ray_calls orig dir models lights 0). k \<le> 5)
   \<and> (\<forall>depth > 4. cast_ray_calls orig dir models lights depth = [depth])"
proof (intro conjI)
  have "length (cast_ray_calls orig dir models lights 0) < 2 ^ (5 + 1)"
    by (rule cast_ray_calls_length) simp
  then show "length (cast_ray_calls orig dir models lights 0) \<le> 63" by simp
  show "\<forall>k \<in> set (cast_ray_calls orig dir models lights 0). k \<le> 5"
    using cast_ray_calls_range [where depth = 0 and n = 5] by simp
  show "\<forall>depth > 4. cast_ray_calls orig dir models lights depth = [depth]"
    by (simp add: cast_ray_calls_deep)
qed

theorem cast_ray_recursion_bounded_witness:
  "cast_ray_calls (Vec3f 0 0 0) (Vec3f 0 1 0) [] [] 0 = [0]
   \<and> length (cast_ray_calls (Vec3f 0 0 0) (Vec3f 0 1 0) [] [] 0) \<le> 63
   \<and> (0::nat) \<in> set (cast_ray_calls (Vec3f 0 0 0) (Vec3f 0 1 0) [] [] 0) \<and> (0::nat) \<le> 5
   \<and> (5::nat) > 4 \<and> cast_ray_calls (Vec3f 0 0 0) (Vec3f 0 1 0) [] [] 5 = [5]"
proof -
  have here: "cast_ray_calls (Vec3f 0 0 0) (Vec3f 0 1 0) [] [] 0 = [0]"
    by (subst cast_ray_calls_unfold) (simp add: ray_marching_upward)
  show ?thesis
    using cast_ray_recursion_bounded [of "Vec3f 0 0 0" "Vec3f 0 1 0" "[]" "[]"] here
    by simp
qed

text \<open>
  Claim C1. For a hit shaded at \<open>depth \<le> 4\<close>, the colour \<^verbatim>\<open>cast_ray\<close> returns is
  \<open>diffuse_color * diffuse_light_intensity * albedo[0]
   + (1,1,1) * specular_light_intensity * albedo[1] + reflect_color * albedo[2]
   + refract_color * albedo[3]\<close>, which is the specification's composite: the
  Fresnel coefficient \<^verbatim>\<open>kr\<close> is no factor of it, it only decides whether
  \<^verbatim>\<open>refract_color\<close> is traced or black.
\<close>

theorem cast_ray_composite:
  assumes "depth \<le> 4"
    and "ray_marching orig dir models (0, 0, Material_default) = (True, point, N, material)"
  shows "cast_ray orig dir models lights depth =
     scale (scale (diffuse_color material)
              (fst (lights_loop lights dir point N material models (0, 0))))
          (vidx4 (albedo material) 0)
       + scale (scale (Vec3f 1 1 1)
              (snd (lights_loop lights dir point N material models (0, 0))))
          (vidx4 (albedo material) 1)
       + scale (cast_ray (fst (reflect_ray dir N point)) (snd (reflect_ray dir N point))
                 models lights (depth + 1))
          (vidx4 (albedo material) 2)
       + scale (if fresnel dir N (refractive_index material) < Fin 1
               then (case refract_ray dir N point material of
                       None \<Rightarrow> background
                     | Some ray \<Rightarrow> cast_ray (fst ray) (snd ray) models lights (depth + 1))
               else Vec3f 0 0 0)
          (vidx4 (albedo material) 3)
   \<and> cast_ray orig dir models lights depth =
       spec_composite material
         (fst (lights_loop lights dir point N material models (0, 0)))
         (snd (lights_loop lights dir point N material models (0, 0)))
         (cast_ray (fst (reflect_ray dir N point)) (snd (reflect_ray dir N point))
            models lights (depth + 1))
         (if fresnel dir N (refractive_index material) < Fin 1
          then (case refract_ray dir N point material of
                  None \<Rightarrow> background
                | Some ray \<Rightarrow> cast_ray (fst ray) (snd ray) models lights (depth + 1))
          else Vec3f 0 0 0)"
  using assms by (subst (1 2) cast_ray_unfold) (simp add: spec_composite_def)

theorem cast_ray_composite_witness:
  "(0::nat) \<le> 4
   \<and> ray_marching (Vec3f 0 0 0) (Vec3f 0 (- 4) (- 20)) [] (0, 0, Material_default) =
       (True, Vec3f 0 (- 4) (- 20), Vec3f 0 1 0,
        Material_default\<lparr>diffuse_color := Vec3f 0.3 0.2 0.1\<rparr>)
   \<and> cast_ray (Vec3f 0 0 0) (Vec3f 0 (- 4) (- 20)) [] [] 0 = Vec3f 0 0 0"
proof -
  have d: "(0::nat) \<le> 4" by simp
  have "cast_ray (Vec3f 0 0 0) (Vec3f 0 (- 4) (- 20)) [] [] 0 = Vec3f 0 0 0"
      using cast_ray_composite [OF d ray_marching_example, of "[]"]
    by (simp add: Material_default_def scale_def plus_Vec3f_def spec_composite_def)
  with d ray_marching_example show ?thesis by blast
qed

text \<open>
  Claim C10. On a checkerboard hit \<^verbatim>\<open>ray_marching\<close> writes, of the output material,
  the field \<^verbatim>\<open>diffuse_color\<close> only. In \<^verbatim>\<open>cast_ray\<close> the material passed in is the
  default one, so \<^verbatim>\<open>refractive_index\<close> stays 1, \<^verbatim>\<open>albedo\<close> stays \<open>(1, 0, 0, 0)\<close> and
  \<^verbatim>\<open>specular_exponent\<close> stays 0, and the colour returned for a plane hit is the
  diffuse term alone: \<^verbatim>\<open>diffuse_color * diffuse_light_intensity\<close>.
\<close>

theorem plane_hit_material_frame:
  assumes "loop_missed orig dir models"
    and "ray_marching orig dir models (hit0, N0, material0) = (True, hit, N, material)"
  shows "material = material0\<lparr>diffuse_color := diffuse_color material\<rparr>
    \<and> (hit0 = 0 \<and> N0 = 0 \<and> material0 = Material_default \<and> depth \<le> 4 \<longrightarrow>
         refractive_index material = 1 \<and> albedo material = Vec4f 1 0 0 0
         \<and> specular_exponent material = 0
         \<and> cast_ray orig dir models lights depth =
             scale (diffuse_color material)
               (fst (lights_loop lights dir hit N material models (0, 0))))"
proof -
  note ph = ray_marching_plane_hit [OF assms]
  from ph have frame: "material = material0\<lparr>diffuse_color := diffuse_color material\<rparr>"
    by (cases material0) simp
  have "refractive_index material = 1 \<and> albedo material = Vec4f 1 0 0 0
         \<and> specular_exponent material = 0
         \<and> cast_ray orig dir models lights depth =
             scale (diffuse_color material)
               (fst (lights_loop lights dir hit N material models (0, 0)))"
    if init: "hit0 = 0" "N0 = 0" "material0 = Material_default" and d: "depth \<le> 4"
  proof -
    from frame init have fields: "refractive_index material = 1"
      "albedo material = Vec4f 1 0 0 0" "specular_exponent material = 0"
      by (metis Material.select_convs Material.surjective Material.update_convs(3) Material_default_def)+
    have "cast_ray orig dir models lights depth =
        spec_composite material
          (fst (lights_loop lights dir hit N material models (0, 0)))
          (snd (lights_loop lights dir hit N material models (0, 0)))
          (cast_ray (fst (reflect_ray dir N hit)) (snd (reflect_ray dir N hit))
             models lights (depth + 1))
          (if fresnel dir N (refractive_index material) < Fin 1
           then (case refract_ray dir N hit material of
                   None \<Rightarrow> background
                 | Some ray \<Rightarrow> cast_ray (fst ray) (snd ray) models lights (depth + 1))
           else Vec3f 0 0 0)"
      using d assms(2) init by (subst cast_ray_unfold) simp
    also have "\<dots> = scale (diffuse_color material)
               (fst (lights_loop lights dir hit N material models (0, 0)))"
      by (simp add: spec_composite_def fields scale_zero_right scale_one_right Vec3f_add_zero)
    finally show ?thesis using fields by simp
  qed
  with frame show ?thesis by blast
qed

theorem plane_hit_material_frame_witness:
  "loop_missed (Vec3f 0 0 0) (Vec3f 0 (- 4) (- 20)) []
   \<and> ray_marching (Vec3f 0 0 0) (Vec3f 0 (- 4) (- 20)) [] (0, 0, Material_default) =
       (True, Vec3f 0 (- 4) (- 20), Vec3f 0 1 0,
        Material_default\<lparr>diffuse_color := Vec3f 0.3 0.2 0.1\<rparr>)
   \<and> (0::nat) \<le> 4
   \<and> cast_ray (Vec3f 0 0 0) (Vec3f 0 (- 4) (- 20)) [] [] 0 = Vec3f 0 0 0"
  using plane_hit_material_frame [OF loop_missed_no_models ray_marching_example, of 0 "[]"]
  by (simp add: loop_missed_no_models ray_marching_example scale_def)

section \<open>The ray marcher\<close>

text \<open>
  Claim C6. When the loop of \<^verbatim>\<open>ray_marching\<close> ends without a primitive hit, by the
  exhausted budget of 128 steps or by its \<^verbatim>\<open>break\<close>, \<^verbatim>\<open>ray_marching\<close> reports a
  hit if and only if \<open>|dir.y| > EPSILON\<close>, the plane distance
  \<open>t = -(orig.y + 4) / dir.y\<close> is positive, the plane point has \<open>|hit.x| < 10\<close> and
  \<open>-30 < hit.z < -10\<close>, and \<open>min(MAX_DISTANCE, t) < 1000\<close>; otherwise it reports a miss.
\<close>

theorem ray_marching_plane_fallback:
  assumes "marching_loop MAX_MARCHING_STEPS orig dir models EPSILON = BudgetExhausted
           \<or> marching_loop MAX_MARCHING_STEPS orig dir models EPSILON = NoModel"
  shows "fst (ray_marching orig dir models out) \<longleftrightarrow>
     \<bar>vy dir\<bar> > EPSILON
     \<and> (let t = - (vy orig + 4) / vy dir; hit = orig + scale dir t in
        t > 0 \<and> \<bar>vx hit\<bar> < 10 \<and> - 30 < vz hit \<and> vz hit < - 10 \<and> min MAX_DISTANCE t < 1000)"
proof -
  from assms have "loop_missed orig dir models"
    by (auto simp: loop_missed_def)
  then have "fst (ray_marching orig dir models out)
      = (min MAX_DISTANCE (fst (checkerboard orig dir out)) < 1000)"
    by (simp add: ray_marching_missed)
  then show ?thesis
    by (cases out) (auto simp: checkerboard_def Let_def MAX_DISTANCE_def FLT_MAX_def)
qed

theorem ray_marching_plane_fallback_witness:
  "(marching_loop MAX_MARCHING_STEPS (Vec3f 0 0 (- 20)) (Vec3f 0 (- 1) 0) [far_sphere] EPSILON
      = BudgetExhausted)
   \<and> fst (ray_marching (Vec3f 0 0 (- 20)) (Vec3f 0 (- 1) 0) [far_sphere] (0, 0, Material_default))
   \<and> \<bar>vy (Vec3f 0 (- 1) 0)\<bar> > EPSILON
   \<and> (4::real) > 0 \<and> min MAX_DISTANCE 4 < 1000"
proof -
  have "fst (ray_marching (Vec3f 0 0 (- 20)) (Vec3f 0 (- 1) 0) [far_sphere]
      (0, 0, Material_default))"
    using ray_marching_plane_fallback [OF disjI1 [OF far_sphere_exhausts],
        of "(0, 0, Material_default)"]
    by (simp add: EPSILON_def MAX_DISTANCE_def plus_Vec3f_def scale_def)
  moreover have "\<bar>vy (Vec3f 0 (- 1) 0)\<bar> > EPSILON \<and> (4::real) > 0 \<and> min MAX_DISTANCE 4 < 1000"
    by (simp add: EPSILON_def MAX_DISTANCE_def)
  ultimately show ?thesis
    using far_sphere_exhausts by blast
qed

text \<open>
  Claim C2, as the specification states it (floor of both halves), fails: the plane
  hit at \<open>x = 0, z = -19\<close> gets light gray, where the floor rule gives brown
  (\<open>\<lfloor>1000\<rfloor> + \<lfloor>-9.5\<rfloor> = 990\<close>, even). The source converts with \<^verbatim>\<open>int(.)\<close>, which
  rounds toward zero: \<open>1000 + (-9) = 991\<close>, odd.
\<close>

theorem checkerboard_floor_rule_counterexample:
  "loop_missed (Vec3f 0 0 0) (Vec3f 0 (- 4) (- 19)) []
   \<and> ray_marching (Vec3f 0 0 0) (Vec3f 0 (- 4) (- 19)) [] (0, 0, Material_default) =
       (True, Vec3f 0 (- 4) (- 19), Vec3f 0 1 0,
        Material_default\<lparr>diffuse_color := Vec3f 0.3 0.3 0.3\<rparr>)
   \<and> spec_tile_color 0 (- 19) = Vec3f 0.3 0.2 0.1
   \<and> Vec3f 0.3 0.3 0.3 \<noteq> spec_tile_color 0 (- 19)"
  by (simp add: loop_missed_no_models ray_marching_example_odd spec_tile_color_def)

text \<open>
  Claim C2, amended. On a checkerboard hit the point has \<open>y = -4\<close> and the tile is
  light gray if \<open>\<lfloor>0.5 * hit.x + 1000\<rfloor> + \<lceil>0.5 * hit.z\<rceil>\<close> is odd, else brown: the
  conversion to \<^verbatim>\<open>int\<close> rounds toward zero, which is the floor of the positive first
  summand and the ceiling of the negative second one. At \<open>x = 0, z = -20\<close> the tile is
  brown, as the floor rule of the specification gives there as well.
\<close>

theorem checkerboard_tile_color:
  assumes "loop_missed orig dir models"
    and "ray_marching orig dir models (hit0, N0, material0) = (True, hit, N, material)"
  shows "vy hit = - 4
    \<and> diffuse_color material =
        (if odd (\<lfloor>0.5 * vx hit + 1000\<rfloor> + \<lceil>0.5 * vz hit\<rceil>)
         then Vec3f 0.3 0.3 0.3 else Vec3f 0.3 0.2 0.1)
    \<and> (vx hit = 0 \<and> vz hit = - 20 \<longrightarrow>
         diffuse_color material = Vec3f 0.3 0.2 0.1
         \<and> diffuse_color material = spec_tile_color (vx hit) (vz hit))"
proof -
  note ph = ray_marching_plane_hit [OF assms]
  from ph have dy: "vy dir \<noteq> 0" by (auto simp: EPSILON_def)
  from ph have "vy hit = vy orig + vy dir * (- (vy orig + 4) / vy dir)"
    by (simp add: plus_Vec3f_def scale_def)
  also have "\<dots> = - 4" using dy by (simp add: field_simps)
  finally have y: "vy hit = - 4" .
  from ph have "0 \<le> 0.5 * vx hit + 1000" "0.5 * vz hit < 0" by auto
  then have ti: "to_int (0.5 * vx hit + 1000) = \<lfloor>0.5 * vx hit + 1000\<rfloor>"
    "to_int (0.5 * vz hit) = \<lceil>0.5 * vz hit\<rceil>"
    by (simp_all add: to_int_nonneg to_int_neg)
  from ph have "diffuse_color material =
        (if (to_int (0.5 * vx hit + 1000) + to_int (0.5 * vz hit)) AND 1 \<noteq> 0
         then Vec3f 0.3 0.3 0.3 else Vec3f 0.3 0.2 0.1)"
    by simp
  then have col: "diffuse_color material =
        (if odd (\<lfloor>0.5 * vx hit + 1000\<rfloor> + \<lceil>0.5 * vz hit\<rceil>)
         then Vec3f 0.3 0.3 0.3 else Vec3f 0.3 0.2 0.1)"
    unfolding ti and_one_odd .
  have "vx hit = 0 \<and> vz hit = - 20 \<longrightarrow>
         diffuse_color material = Vec3f 0.3 0.2 0.1
         \<and> diffuse_color material = spec_tile_color (vx hit) (vz hit)"
    using col by (simp add: spec_tile_color_def)
  with y col show ?thesis by blast
qed

theorem checkerboard_tile_color_witness:
  "loop_missed (Vec3f 0 0 0) (Vec3f 0 (- 4) (- 20)) []
   \<and> ray_marching (Vec3f 0 0 0) (Vec3f 0 (- 4) (- 20)) [] (0, 0, Material_default) =
       (True, Vec3f 0 (- 4) (- 20), Vec3f 0 1 0,
        Material_default\<lparr>diffuse_color := Vec3f 0.3 0.2 0.1\<rparr>)
   \<and> vx (Vec3f 0 (- 4) (- 20)) = 0 \<and> vz (Vec3f 0 (- 4) (- 20)) = - 20
   \<and> diffuse_color (Material_default\<lparr>diffuse_color := Vec3f 0.3 0.2 0.1\<rparr>)
       = spec_tile_color 0 (- 20)"
  using checkerboard_tile_color [OF loop_missed_no_models ray_marching_example]
  by (simp add: loop_missed_no_models ray_marching_example)

section \<open>The scene field\<close>

text \<open>
  Claim C3, as stated, fails: a primitive whose distance is not negative but at least
  \<^verbatim>\<open>MAX_DISTANCE\<close> is not returned. From the origin the unit sphere around
  \<open>(20000, 0, 0)\<close> is \<open>19999\<close> away, and \<^verbatim>\<open>scene_sdf\<close> returns the sentinel
  \<open>9999\<close> with no hit model.
\<close>

theorem scene_sdf_far_counterexample:
  "sdf (Sphere Material_default (Vec3f 20000 0 0) 1) (Vec3f 0 0 0) = 19999
   \<and> scene_sdf (Vec3f 0 0 0) [Sphere Material_default (Vec3f 20000 0 0) 1]
       = (MAX_DISTANCE, None)"
  by (simp add: scene_sdf_def minus_Vec3f_def vnorm_axis MAX_DISTANCE_def)

text \<open>
  Claim C3, amended. \<^verbatim>\<open>scene_sdf\<close> leaves out every primitive whose distance at the
  point is negative (the result is that of the list without them). It returns a
  primitive of the list together with its distance \<open>d\<close>, where \<open>0 \<le> d < MAX_DISTANCE\<close>
  and no primitive has a distance in \<open>[0, d)\<close>; or, when no primitive has a distance in
  \<open>[0, MAX_DISTANCE)\<close>, the sentinel \<^verbatim>\<open>MAX_DISTANCE\<close> with no hit model. A sphere of
  radius \<open>r > 0\<close> has distance \<open>-r\<close> at its centre and is left out there.
\<close>

theorem scene_sdf_nearest:
  "(case scene_sdf p models of
      (d, None) \<Rightarrow>
        d = MAX_DISTANCE \<and> (\<forall>m \<in> set models. sdf m p < 0 \<or> MAX_DISTANCE \<le> sdf m p)
    | (d, Some m) \<Rightarrow>
        m \<in> set models \<and> d = sdf m p \<and> 0 \<le> d \<and> d < MAX_DISTANCE
        \<and> (\<forall>m' \<in> set models. sdf m' p < 0 \<or> d \<le> sdf m' p))
   \<and> scene_sdf p models = scene_sdf p (filter (\<lambda>m. \<not> sdf m p < 0) models)
   \<and> (r > 0 \<longrightarrow> sdf (Sphere mat C r) C = - r
        \<and> scene_sdf C (xs @ Sphere mat C r # ys) = scene_sdf C (xs @ ys))"
proof (intro conjI impI)
  obtain d hm where res: "scene_sdf p models = (d, hm)" by (cases "scene_sdf p models")
  then have "scene_sdf_loop p models (MAX_DISTANCE, None) = (d, hm)"
    by (simp add: scene_sdf_def)
  from scene_sdf_loop_result [OF this]
  show "case scene_sdf p models of
      (d, None) \<Rightarrow>
        d = MAX_DISTANCE \<and> (\<forall>m \<in> set models. sdf m p < 0 \<or> MAX_DISTANCE \<le> sdf m p)
    | (d, Some m) \<Rightarrow>
        m \<in> set models \<and> d = sdf m p \<and> 0 \<le> d \<and> d < MAX_DISTANCE
        \<and> (\<forall>m' \<in> set models. sdf m' p < 0 \<or> d \<le> sdf m' p)"
    unfolding res by (auto split: option.splits)
  show "scene_sdf p models = scene_sdf p (filter (\<lambda>m. \<not> sdf m p < 0) models)"
    by (simp add: scene_sdf_def scene_sdf_loop_filter)
  show "sdf (Sphere mat C r) C = - r" by (rule sdf_center)
  assume "r > 0"
  then show "scene_sdf C (xs @ Sphere mat C r # ys) = scene_sdf C (xs @ ys)"
    by (cases "scene_sdf_loop C xs (MAX_DISTANCE, None)")
       (simp add: scene_sdf_def scene_sdf_loop_append sdf_center del: sdf.simps)
qed

theorem scene_sdf_nearest_witness:
  "scene_sdf (Vec3f 0 0 0)
      [Sphere Material_default (Vec3f 0 0 0) 2, Sphere Material_default (Vec3f 5 0 0) 1]
     = (4, Some (Sphere Material_default (Vec3f 5 0 0) 1))
   \<and> sdf (Sphere Material_default (Vec3f 0 0 0) 2) (Vec3f 0 0 0) = - 2
   \<and> sdf (Sphere Material_default (Vec3f 5 0 0) 1) (Vec3f 0 0 0) = 4
   \<and> (2::real) > 0
   \<and> scene_sdf (Vec3f 0 0 0)
        ([] @ Sphere Material_default (Vec3f 0 0 0) 2 # [Sphere Material_default (Vec3f 5 0 0) 1])
      = scene_sdf (Vec3f 0 0 0) ([] @ [Sphere Material_default (Vec3f 5 0 0) 1])"
  using scene_sdf_nearest [where p = "Vec3f 0 0 0"
      and models = "[Sphere Material_default (Vec3f 0 0 0) 2,
                     Sphere Material_default (Vec3f 5 0 0) 1]"
      and r = 2 and mat = Material_default and C = "Vec3f 0 0 0" and xs = "[]"
      and ys = "[Sphere Material_default (Vec3f 5 0 0) 1]"]
  by (simp add: scene_sdf_def minus_Vec3f_def vnorm_axis MAX_DISTANCE_def)

section \<open>Optics and numeric domains\<close>

text \<open>
  Claim C7. \<^verbatim>\<open>fresnel\<close> sets \<^verbatim>\<open>kr = 1\<close> whenever the sine \<^verbatim>\<open>sint\<close> it computed is
  at least 1, and \<^verbatim>\<open>refract\<close> returns the fixed direction \<open>(1, 0, 0)\<close> whenever the
  discriminant \<^verbatim>\<open>k\<close> is negative, for every incident direction, normal and index.
  The comparisons are those of the source on the values it computed: with index 0 the
  sine is \<open>+\<infinity>\<close> and the discriminant \<open>-\<infinity>\<close>, and both fallbacks are taken. The
  results are the finite values \<open>1\<close> and \<open>(1, 0, 0)\<close>; \<^verbatim>\<open>refract\<close> returns on every
  input (its termination proof: it calls itself at most once).
\<close>

theorem optics_fallbacks:
  "(fresnel_sint I N ior \<ge> Fin 1 \<longrightarrow> fresnel I N ior = Fin 1)
   \<and> (refract_discriminant I N eta_t eta_i < Fin 0 \<longrightarrow>
        refract I N eta_t eta_i = FVec (Fin 1) (Fin 0) (Fin 0))"
  by (simp add: fresnel_unfold refract_negative_discriminant)

theorem optics_fallbacks_witness:
  "fresnel_sint (Vec3f 1 0 0) (Vec3f 0 1 0) 0 = PInf
   \<and> fresnel_sint (Vec3f 1 0 0) (Vec3f 0 1 0) 0 \<ge> Fin 1
   \<and> fresnel (Vec3f 1 0 0) (Vec3f 0 1 0) 0 = Fin 1
   \<and> refract_discriminant (Vec3f (3 / 5) (- (4 / 5)) 0) (Vec3f 0 1 0) 0 1 = NInf
   \<and> refract_discriminant (Vec3f (3 / 5) (- (4 / 5)) 0) (Vec3f 0 1 0) 0 1 < Fin 0
   \<and> refract (Vec3f (3 / 5) (- (4 / 5)) 0) (Vec3f 0 1 0) 0 1 = FVec (Fin 1) (Fin 0) (Fin 0)
   \<and> fresnel_sint (Vec3f 1 0 0) (Vec3f 0 0 1) 1 = Fin 1
   \<and> fresnel (Vec3f 1 0 0) (Vec3f 0 0 1) 1 = Fin 1
   \<and> refract_discriminant (Vec3f 1 0 0) (Vec3f 0 0 1) (1 / 2) 1 = Fin (- 3)
   \<and> refract (Vec3f 1 0 0) (Vec3f 0 0 1) (1 / 2) 1 = FVec (Fin 1) (Fin 0) (Fin 0)"
proof -
  have s0: "fresnel_sint (Vec3f 1 0 0) (Vec3f 0 1 0) 0 = PInf"
    by (simp add: fresnel_sint_def fresnel_cosi_def fresnel_etai_def fresnel_etat_def clamp_def
        dot_def std_max_def)
  have k0: "refract_discriminant (Vec3f (3 / 5) (- (4 / 5)) 0) (Vec3f 0 1 0) 0 1 = NInf"
    by (subst refract_discriminant.simps)
       (simp add: refract_cosi_def refract_k_def dot_def minus_fval_def)
  have s1: "fresnel_sint (Vec3f 1 0 0) (Vec3f 0 0 1) 1 = Fin 1"
    by (simp add: fresnel_sint_def fresnel_cosi_def fresnel_etai_def fresnel_etat_def clamp_def
        dot_def std_max_def)
  have k1: "refract_discriminant (Vec3f 1 0 0) (Vec3f 0 0 1) (1 / 2) 1 = Fin (- 3)"
    by (subst refract_discriminant.simps)
       (simp add: refract_cosi_def refract_k_def dot_def minus_fval_def)
  from optics_fallbacks [where I = "Vec3f 1 0 0" and N = "Vec3f 0 1 0" and ior = 0
      and eta_t = 0 and eta_i = 1]
  have "fresnel (Vec3f 1 0 0) (Vec3f 0 1 0) 0 = Fin 1"
    by (simp add: s0)
  moreover
  from optics_fallbacks [where I = "Vec3f (3 / 5) (- (4 / 5)) 0" and N = "Vec3f 0 1 0"
      and ior = 0 and eta_t = 0 and eta_i = 1]
  have "refract (Vec3f (3 / 5) (- (4 / 5)) 0) (Vec3f 0 1 0) 0 1 = FVec (Fin 1) (Fin 0) (Fin 0)"
    by (simp add: k0)
  moreover
  from optics_fallbacks [where I = "Vec3f 1 0 0" and N = "Vec3f 0 0 1" and ior = 1
      and eta_t = "1 / 2" and eta_i = 1]
  have "fresnel (Vec3f 1 0 0) (Vec3f 0 0 1) 1 = Fin 1"
    and "refract (Vec3f 1 0 0) (Vec3f 0 0 1) (1 / 2) 1 = FVec (Fin 1) (Fin 0) (Fin 0)"
    by (simp_all add: s1 k1)
  ultimately show ?thesis by (simp add: s0 k0 s1 k1)
qed

text \<open>
  Claim C9, as stated, fails in its last part: the divisions are not guarded. With
  refractive index 0 (the index of three of the four materials of \<^verbatim>\<open>main\<close>) and a ray
  that meets the surface head-on, \<^verbatim>\<open>fresnel\<close> evaluates \<^verbatim>\<open>etai / etat\<close> as \<open>1 / 0\<close>
  and multiplies it by the root \<open>0\<close>: \<^verbatim>\<open>sint\<close> is NaN, and so is the \<^verbatim>\<open>kr\<close> returned.
\<close>

theorem fresnel_zero_divisor_counterexample:
  "fresnel_etai (Vec3f 0 0 (- 1)) (Vec3f 0 0 1) 0 = 1
   \<and> fresnel_etat (Vec3f 0 0 (- 1)) (Vec3f 0 0 1) 0 = 0
   \<and> sqrtf (std_max (Fin 0) (Fin (1 - fresnel_cosi (Vec3f 0 0 (- 1)) (Vec3f 0 0 1)
                     * fresnel_cosi (Vec3f 0 0 (- 1)) (Vec3f 0 0 1)))) = Fin 0
   \<and> Fin 0 \<in> set (fresnel_divisors (Vec3f 0 0 (- 1)) (Vec3f 0 0 1) 0)
   \<and> fresnel_sint (Vec3f 0 0 (- 1)) (Vec3f 0 0 1) 0 = NaN
   \<and> fresnel (Vec3f 0 0 (- 1)) (Vec3f 0 0 1) 0 = NaN"
  by (simp add: fresnel_def fresnel_divisors_def fresnel_sint_def fresnel_etai_def
      fresnel_etat_def fresnel_cosi_def clamp_def dot_def std_max_def minus_fval_def)

text \<open>
  Claim C9, amended. The cosines of \<^verbatim>\<open>fresnel\<close> and \<^verbatim>\<open>refract\<close> are clamped to
  \<open>[-1, 1]\<close>, and every argument that reaches a square root in \<^verbatim>\<open>fresnel\<close>,
  \<^verbatim>\<open>refract\<close>, \<^verbatim>\<open>Sphere::ray_intersect\<close> and the vector length is clamped or tested
  before use, so no root of a negative number is taken: the arguments of \<^verbatim>\<open>fresnel\<close>,
  \<^verbatim>\<open>ray_intersect\<close> and the length are at least 0; the argument of \<^verbatim>\<open>refract\<close> is
  never below 0, and at least 0 when neither index is 0 (with a zero divisor the test
  \<^verbatim>\<open>k < 0\<close> lets a NaN through). The divisors of \<^verbatim>\<open>fresnel\<close> are nonzero when the
  refractive index is positive.
\<close>

theorem sqrt_arguments_guarded:
  "- 1 \<le> fresnel_cosi I N \<and> fresnel_cosi I N \<le> 1
   \<and> - 1 \<le> refract_cosi I N \<and> refract_cosi I N \<le> 1
   \<and> (\<forall>r \<in> set (fresnel_radicands I N ior). Fin 0 \<le> r)
   \<and> (\<forall>r \<in> set (refract_radicands I N eta_t eta_i). \<not> r < Fin 0)
   \<and> (eta_t \<noteq> 0 \<and> eta_i \<noteq> 0 \<longrightarrow>
        (\<forall>r \<in> set (refract_radicands I N eta_t eta_i). Fin 0 \<le> r))
   \<and> (\<forall>r \<in> set (ray_intersect_radicands s orig dir). 0 \<le> r)
   \<and> 0 \<le> norm_sqr v
   \<and> (0 < ior \<longrightarrow> (\<forall>d \<in> set (fresnel_divisors I N ior). d \<noteq> Fin 0))"
proof (intro conjI ballI impI)
  show "- 1 \<le> fresnel_cosi I N" "fresnel_cosi I N \<le> 1"
    by (simp_all add: fresnel_cosi_def clamp_def)
  show "- 1 \<le> refract_cosi I N" "refract_cosi I N \<le> 1"
    by (simp_all add: refract_cosi_def min_def max_def)
  show "Fin 0 \<le> r" if "r \<in> set (fresnel_radicands I N ior)" for r
    using that by (rule fresnel_radicands_nonneg)
  show "\<not> r < Fin 0" if "r \<in> set (refract_radicands I N eta_t eta_i)" for r
    using that by (rule refract_radicands_not_negative)
  show "Fin 0 \<le> r"
    if "eta_t \<noteq> 0 \<and> eta_i \<noteq> 0" "r \<in> set (refract_radicands I N eta_t eta_i)" for r
    using that by (intro refract_radicands_nonneg [of eta_t eta_i r I N]) simp_all
  show "0 \<le> r" if "r \<in> set (ray_intersect_radicands s orig dir)" for r
    using that by (auto simp: ray_intersect_radicands_def Let_def split: if_splits)
  show "0 \<le> norm_sqr v" by (simp add: norm_sqr_def)
  show "d \<noteq> Fin 0" if "0 < ior" "d \<in> set (fresnel_divisors I N ior)" for d
    using that by (rule fresnel_divisors_nonzero)
qed

theorem sqrt_arguments_guarded_witness:
  "fresnel_radicands (Vec3f 0 0 (- 1)) (Vec3f 0 0 1) (3 / 2) = [Fin 0, Fin 1]
   \<and> refract_radicands (Vec3f 0 0 (- 1)) (Vec3f 0 0 1) (3 / 2) 1 = [Fin 1]
   \<and> ray_intersect_radicands (Sphere Material_default (Vec3f 0 0 (- 5)) 1) (Vec3f 0 0 0)
        (Vec3f 0 0 (- 1)) = [1]
   \<and> (3 / 2 :: real) \<noteq> 0 \<and> (1::real) \<noteq> 0 \<and> (0::real) < 3 / 2
   \<and> fresnel_divisors (Vec3f 0 0 (- 1)) (Vec3f 0 0 1) (3 / 2)
       = [Fin (3 / 2), Fin (5 / 2), Fin (5 / 2)]
   \<and> Fin 0 \<le> fresnel_radicands (Vec3f 0 0 (- 1)) (Vec3f 0 0 1) (3 / 2) ! 1
   \<and> \<not> hd (refract_radicands (Vec3f 0 0 (- 1)) (Vec3f 0 0 1) (3 / 2) 1) < Fin 0
   \<and> Fin 0 \<le> hd (refract_radicands (Vec3f 0 0 (- 1)) (Vec3f 0 0 1) (3 / 2) 1)
   \<and> 0 \<le> hd (ray_intersect_radicands (Sphere Material_default (Vec3f 0 0 (- 5)) 1)
                (Vec3f 0 0 0) (Vec3f 0 0 (- 1)))
   \<and> hd (fresnel_divisors (Vec3f 0 0 (- 1)) (Vec3f 0 0 1) (3 / 2)) \<noteq> Fin 0"
proof -
  have a: "fresnel_radicands (Vec3f 0 0 (- 1)) (Vec3f 0 0 1) (3 / 2) = [Fin 0, Fin 1]"
    by (simp add: fresnel_radicands_def fresnel_sint_def fresnel_etai_def fresnel_etat_def
        fresnel_cosi_def clamp_def dot_def std_max_def minus_fval_def)
  have b: "refract_radicands (Vec3f 0 0 (- 1)) (Vec3f 0 0 1) (3 / 2) 1 = [Fin 1]"
    by (subst refract_radicands.simps)
       (simp add: refract_cosi_def refract_k_def dot_def minus_fval_def)
  have c: "ray_intersect_radicands (Sphere Material_default (Vec3f 0 0 (- 5)) 1) (Vec3f 0 0 0)
        (Vec3f 0 0 (- 1)) = [1]"
    by (simp add: ray_intersect_radicands_def dot_def minus_Vec3f_def)
  have d: "fresnel_divisors (Vec3f 0 0 (- 1)) (Vec3f 0 0 1) (3 / 2)
       = [Fin (3 / 2), Fin (5 / 2), Fin (5 / 2)]"
    by (simp add: fresnel_divisors_def fresnel_sint_def fresnel_etai_def fresnel_etat_def
        fresnel_cosi_def clamp_def dot_def std_max_def minus_fval_def)
  have e: "(3 / 2 :: real) \<noteq> 0 \<and> (1::real) \<noteq> 0 \<and> (0::real) < 3 / 2" by simp
  note g = sqrt_arguments_guarded [where I = "Vec3f 0 0 (- 1)" and N = "Vec3f 0 0 1"
      and ior = "3 / 2" and eta_t = "3 / 2" and eta_i = 1
      and s = "Sphere Material_default (Vec3f 0 0 (- 5)) 1" and orig = "Vec3f 0 0 0"
      and dir = "Vec3f 0 0 (- 1)"]
  from g have "Fin 0 \<le> fresnel_radicands (Vec3f 0 0 (- 1)) (Vec3f 0 0 1) (3 / 2) ! 1"
    by (simp add: a)
  moreover from g
  have "\<not> hd (refract_radicands (Vec3f 0 0 (- 1)) (Vec3f 0 0 1) (3 / 2) 1) < Fin 0"
    by (simp add: b)
  moreover from g
  have "Fin 0 \<le> hd (refract_radicands (Vec3f 0 0 (- 1)) (Vec3f 0 0 1) (3 / 2) 1)"
    by (simp add: b)
  moreover from g have "0 \<le> hd (ray_intersect_radicands
      (Sphere Material_default (Vec3f 0 0 (- 5)) 1) (Vec3f 0 0 0) (Vec3f 0 0 (- 1)))"
    by (simp add: c)
  moreover from g e
  have "hd (fresnel_divisors (Vec3f 0 0 (- 1)) (Vec3f 0 0 1) (3 / 2)) \<noteq> Fin 0"
    by (simp add: d)
  ultimately show ?thesis using a b c d e by blast
qed

section \<open>The renderer\<close>

text \<open>
  Claim C8. A colour whose largest channel exceeds 1 is scaled by \<open>1 / max\<close> in all
  three channels: afterwards the largest channel is exactly 1 and the ratio of any two
  channels is what it was. A colour whose largest channel is at most 1 is left as it
  is. Each channel is then clamped to \<open>[0, 1]\<close> and written as the byte
  \<open>\<lfloor>255 * clamped\<rfloor>\<close>, a value from 0 to 255.
\<close>

theorem tone_map_scaling:
  "(max (vidx c 0) (max (vidx c 1) (vidx c 2)) > 1 \<longrightarrow>
      tone_map c = scale c (1 / max (vidx c 0) (max (vidx c 1) (vidx c 2)))
      \<and> max (vidx (tone_map c) 0) (max (vidx (tone_map c) 1) (vidx (tone_map c) 2)) = 1
      \<and> (\<forall>i j. vidx c j \<noteq> 0 \<longrightarrow>
            vidx (tone_map c) j \<noteq> 0
            \<and> vidx (tone_map c) i / vidx (tone_map c) j = vidx c i / vidx c j))
   \<and> (max (vidx c 0) (max (vidx c 1) (vidx c 2)) \<le> 1 \<longrightarrow> tone_map c = c)
   \<and> pixel_bytes c =
       [quantize (vidx (tone_map c) 0), quantize (vidx (tone_map c) 1),
        quantize (vidx (tone_map c) 2)]
   \<and> uint (quantize v) = \<lfloor>255 * max 0 (min 1 v)\<rfloor>
   \<and> 0 \<le> max 0 (min 1 v) \<and> max 0 (min 1 v) \<le> 1"
proof -
  let ?m = "max (vidx c 0) (max (vidx c 1) (vidx c 2))"
  have sc: "vidx (scale c k) i = vidx c i * k" for k i
    by (cases c) (simp add: scale_def)
  have a: "tone_map c = scale c (1 / ?m)" if "?m > 1"
    using that by (simp add: tone_map_def Let_def)
  have b: "vidx (tone_map c) j \<noteq> 0
            \<and> vidx (tone_map c) i / vidx (tone_map c) j = vidx c i / vidx c j"
    if "?m > 1" "vidx c j \<noteq> 0" for i j
  proof -
    from that have "?m \<noteq> 0" by simp
    with that show ?thesis unfolding a [OF that(1)] sc by simp
  qed
  have d: "tone_map c = c" if "?m \<le> 1"
  proof -
    from that have "\<not> ?m > 1" by (simp only: not_less)
    then show ?thesis unfolding tone_map_def Let_def by (simp only: if_False)
  qed
  have e: "0 \<le> max 0 (min 1 v) \<and> max 0 (min 1 v) \<le> 1" by (simp add: max_def min_def)
  have f: "pixel_bytes c =
       [quantize (vidx (tone_map c) 0), quantize (vidx (tone_map c) 1),
        quantize (vidx (tone_map c) 2)]"
    by (simp add: pixel_bytes_def)
  from a b d e f tone_map_rescaled [of c] quantize_uint [of v]
  show ?thesis by blast
qed

theorem tone_map_scaling_witness:
  "max (vidx (Vec3f 2 1 4) 0) (max (vidx (Vec3f 2 1 4) 1) (vidx (Vec3f 2 1 4) 2)) > 1
   \<and> tone_map (Vec3f 2 1 4) = Vec3f (1 / 2) (1 / 4) 1
   \<and> vidx (Vec3f 2 1 4) 1 \<noteq> 0
   \<and> vidx (tone_map (Vec3f 2 1 4)) 0 / vidx (tone_map (Vec3f 2 1 4)) 1 = 2
   \<and> max (vidx (Vec3f (1 / 2) 1 0) 0) (max (vidx (Vec3f (1 / 2) 1 0) 1) (vidx (Vec3f (1 / 2) 1 0) 2)) \<le> 1
   \<and> tone_map (Vec3f (1 / 2) 1 0) = Vec3f (1 / 2) 1 0
   \<and> pixel_bytes (Vec3f 2 1 4) = [127, 63, 255]"
proof -
  let ?c = "Vec3f 2 1 4"
  have tm: "tone_map ?c = Vec3f (1 / 2) (1 / 4) 1"
    by (simp add: tone_map_def scale_def)
  have fl: "\<lfloor>255 / 2 :: real\<rfloor> = 127" "\<lfloor>255 / 4 :: real\<rfloor> = 63"
    by (simp_all add: floor_eq_iff)
  have q: "quantize (1 / 2) = 127" "quantize (1 / 4) = 63" "quantize 1 = 255"
    by (simp_all add: quantize_def to_int_def fl)
  have mx: "max (vidx ?c 0) (max (vidx ?c 1) (vidx ?c 2)) > 1" by simp
  have nz: "vidx ?c 1 \<noteq> 0" by simp
  from tone_map_scaling [of ?c 1] mx
  have "\<forall>i j. vidx ?c j \<noteq> 0 \<longrightarrow>
            vidx (tone_map ?c) j \<noteq> 0
            \<and> vidx (tone_map ?c) i / vidx (tone_map ?c) j = vidx ?c i / vidx ?c j"
    by blast
  from this [rule_format, OF nz, of 0]
  have ratio: "vidx (tone_map ?c) 0 / vidx (tone_map ?c) 1 = 2" by simp
  have le: "max (vidx (Vec3f (1 / 2) 1 0) 0)
      (max (vidx (Vec3f (1 / 2) 1 0) 1) (vidx (Vec3f (1 / 2) 1 0) 2)) \<le> 1"
    by simp
  from tone_map_scaling [of "Vec3f (1 / 2) 1 0" 1] le
  have same: "tone_map (Vec3f (1 / 2) 1 0) = Vec3f (1 / 2) 1 0" by blast
  have bytes: "pixel_bytes ?c = [127, 63, 255]"
    by (simp add: pixel_bytes_def tm q)
  from mx tm nz ratio le same bytes show ?thesis by blast
qed

end
